theory Spec2Isabelle
  imports Complex_Main "HOL-Library.Sublist"
begin

section \<open>Python values and library functions\<close>

text \<open>
  Python floats are modelled as rationals (every finite float is one), with comparison,
  \<open>max\<close> and \<open>min\<close> exact as in Python; sums and quotients are taken exactly, and a
  float literal denotes its decimal value. A \<open>str\<close> is a \<open>string\<close>; a \<open>dict\<close> is an
  association list in insertion order.
\<close>

datatype pynum = PyInt int | PyFloat rat

definition dict_get :: "('k \<times> 'v) list \<Rightarrow> 'k \<Rightarrow> 'v option" where
  "dict_get d k = map_of d k"

definition dict_get_default :: "('k \<times> 'v) list \<Rightarrow> 'k \<Rightarrow> 'v \<Rightarrow> 'v" where
  "dict_get_default d k dflt = (case map_of d k of None \<Rightarrow> dflt | Some v \<Rightarrow> v)"

definition dict_set :: "'k \<Rightarrow> 'v \<Rightarrow> ('k \<times> 'v) list \<Rightarrow> ('k \<times> 'v) list" where
  "dict_set k v d =
     (if k \<in> set (map fst d) then map (\<lambda>(k', v'). if k' = k then (k, v) else (k', v')) d
      else d @ [(k, v)])"

definition dict_pop :: "'k \<Rightarrow> ('k \<times> 'v) list \<Rightarrow> ('k \<times> 'v) list" where
  "dict_pop k d = filter (\<lambda>(k', v'). k' \<noteq> k) d"

fun str_join :: "string \<Rightarrow> string list \<Rightarrow> string" where
  "str_join sep [] = []"
| "str_join sep [x] = x"
| "str_join sep (x # y # ys) = x @ sep @ str_join sep (y # ys)"

definition isspace :: "char \<Rightarrow> bool" where
  "isspace c = (of_char c \<in> {9, 10, 11, 12, 13, 28, 29, 30, 31, 32, 133, 160 :: nat})"

definition str_strip :: "string \<Rightarrow> string" where
  "str_strip s = rev (dropWhile isspace (rev (dropWhile isspace s)))"

definition py_any :: "bool list \<Rightarrow> bool" where
  "py_any bs = list_ex (\<lambda>b. b) bs"

text \<open>
  The functions of the Python library and the tables of the module
  \<open>com.mhire.app.utils.pattern_utils\<close> (imported by \<open>moderation_utils.py\<close>, its
  source not at hand) are parameters of the model:
  \<^item> \<open>re_search p t\<close>: \<open>re.search(p, t, re.IGNORECASE)\<close> finds a match;
  \<^item> \<open>str_lower\<close>: \<open>str.lower\<close>;
  \<^item> \<open>md5_hexdigest s\<close>: \<open>hashlib.md5(s.encode()).hexdigest()\<close>;
  \<^item> \<open>py_str\<close>: how an f-string renders a number;
  \<^item> \<open>format_pct x\<close>: \<open>f"{x:.2%}"\<close>;
  \<^item> \<open>preprocess_audio\<close>: \<open>TranscriptionService._preprocess_audio\<close>, the audio signal
    processing, which returns the path of the processed file and a duration;
  \<^item> \<open>path_suffix_lower p\<close>: \<open>Path(p).suffix.lower()\<close>;
  \<^item> \<open>unsupported_format_message\<close>, \<open>file_too_large_message\<close>: the formatted
    messages of the two \<open>ValueError\<close>s of \<open>_validate_audio_file\<close>.
\<close>

record runtime =
  re_search :: "string \<Rightarrow> string \<Rightarrow> bool"
  str_lower :: "string \<Rightarrow> string"
  md5_hexdigest :: "string \<Rightarrow> string"
  py_str :: "pynum \<Rightarrow> string"
  format_pct :: "rat \<Rightarrow> string"
  preprocess_audio :: "string \<Rightarrow> string \<times> rat"
  path_suffix_lower :: "string \<Rightarrow> string"
  unsupported_format_message :: "string \<Rightarrow> string"
  file_too_large_message :: "int \<Rightarrow> string"
  BODY_SHAMING_PATTERNS :: "string list"
  EMOTIONAL_ABUSE_PATTERNS :: "string list"
  RACISM_HATE_SPEECH_PATTERNS :: "string list"
  TRANSACTIONAL_DATING_PATTERNS :: "string list"
  SEXISM_MISOGYNY_TRANSPHOBIA_PATTERNS :: "string list"

section \<open>moderation.py: the pattern matcher\<close>

text \<open>The regular-expression escapes \<open>\b\<close>, \<open>\s\<close> and \<open>\'\<close> of the raw pattern strings.\<close>

definition wb :: string where "wb = [CHR 0x5C, CHR ''b'']"
definition ws :: string where "ws = [CHR 0x5C, CHR ''s'']"
definition apos :: string where "apos = [CHR 0x5C, CHR 0x27]"

definition INAPPROPRIATE_PATTERNS :: "string list" where
  "INAPPROPRIATE_PATTERNS =
    [wb @ ''(fuck|fucking|fucked)'' @ wb,
     wb @ ''(pussy|dick|cock|penis|vagina)'' @ wb,
     wb @ ''(cum|cumming|orgasm)'' @ wb,
     wb @ ''(horny|wet|hard|erect)'' @ wb,
     wb @ ''(suck|lick|taste|swallow)'' @ wb @ ''.*'' @ wb @ ''(you|me|it)'' @ wb,
     wb @ ''(naked|nude|undress|strip)'' @ wb,
     wb @ ''(bedroom|bed|shower|bath)'' @ wb @ ''.*'' @ wb @ ''(together|with me|with you)'' @ wb,
     wb @ ''(kiss|touch|feel|grab)'' @ wb @ ''.*'' @ wb @ ''(body|skin|lips|neck)'' @ wb,
     wb @ ''how far.*'' @ wb @ ''(down|up|deep)'' @ wb,
     wb @ ''slowly.*'' @ wb @ ''(kiss|touch|lick)'' @ wb,
     wb @ ''make.*'' @ wb @ ''(love|out|you moan)'' @ wb,
     wb @ ''(desire|want|need).*'' @ wb @ ''(you|your body)'' @ wb,
     wb @ ''(turn.*on|turned on|aroused)'' @ wb,
     wb @ ''(dirty|naughty|bad).*'' @ wb @ ''(things|thoughts|ideas)'' @ wb,
     wb @ ''(69)'' @ wb,
     wb @ ''without'' @ ws @ ''+(them|clothes|clothing)'' @ wb,
     wb @ ''can'' @ apos @ ''t'' @ ws @ ''+imagine'' @ ws @ ''+how'' @ ws @ ''+(good|sexy|hot)''
        @ ws @ ''+you'' @ wb,
     wb @ ''how'' @ ws @ ''+(good|sexy|hot)'' @ ws @ ''+you'' @ apos @ ''ll'' @ ws @ ''+look''
        @ ws @ ''+without'' @ wb,
     wb @ ''look'' @ ws @ ''+(good|sexy|hot)'' @ ws @ ''+without'' @ wb,
     wb @ ''what'' @ ws @ ''+you'' @ apos @ ''re'' @ ws @ ''+wearing'' @ ws @ ''+under'' @ wb,
     wb @ ''underneath'' @ ws @ ''+(those|your)'' @ ws @ ''+(clothes|clothing)'' @ wb]"

definition suggestive_indicators :: "string list" where
  "suggestive_indicators =
    [wb @ ''tonight.*'' @ wb @ ''want'' @ wb,
     wb @ ''question.*'' @ wb @ ''how far'' @ wb,
     wb @ ''slowly.*'' @ wb @ ''kiss.*'' @ wb @ ''down'' @ wb,
     wb @ ''from.*'' @ wb @ ''lips.*'' @ wb @ ''down'' @ wb]"

text \<open>\<open>any(re.search(pattern, text_lower, re.IGNORECASE) for pattern in patterns)\<close>\<close>

definition any_search :: "runtime \<Rightarrow> string list \<Rightarrow> string \<Rightarrow> bool" where
  "any_search rt patterns text_lower =
     list_ex (\<lambda>pattern. re_search rt pattern text_lower) patterns"

text \<open>
  One of the seven blocks of \<open>check_custom_patterns_only\<close>: the flag of the group is
  written under its name in either branch, the description appended when it matched.
\<close>

definition record_group ::
  "string \<Rightarrow> string \<Rightarrow> bool \<Rightarrow> (string \<times> bool) list \<times> string list
    \<Rightarrow> (string \<times> bool) list \<times> string list" where
  "record_group name description matches acc =
     (case acc of (custom_flags, reasons) \<Rightarrow>
        if matches then (dict_set name True custom_flags, reasons @ [description])
        else (dict_set name False custom_flags, reasons))"

definition check_custom_patterns_only ::
  "runtime \<Rightarrow> string \<Rightarrow> bool \<times> (string \<times> bool) list \<times> string" where
  "check_custom_patterns_only rt text =
     (let text_lower = str_lower rt text;
          acc = ([], []);
          acc = record_group ''explicit_content''
                  ''Explicit sexual/inappropriate language detected''
                  (any_search rt INAPPROPRIATE_PATTERNS text_lower) acc;
          acc = record_group ''suggestive_context''
                  ''Suggestive/sexual context detected''
                  (any_search rt suggestive_indicators text_lower) acc;
          acc = record_group ''body_shaming''
                  ''Body shaming/appearance-based harassment detected''
                  (any_search rt (BODY_SHAMING_PATTERNS rt) text_lower) acc;
          acc = record_group ''emotional_abuse''
                  ''Emotional abuse/manipulation detected''
                  (any_search rt (EMOTIONAL_ABUSE_PATTERNS rt) text_lower) acc;
          acc = record_group ''racism_hate_speech''
                  ''Racism/hate speech detected''
                  (any_search rt (RACISM_HATE_SPEECH_PATTERNS rt) text_lower) acc;
          acc = record_group ''transactional_dating''
                  ''Transactional/sugar-dating language detected''
                  (any_search rt (TRANSACTIONAL_DATING_PATTERNS rt) text_lower) acc;
          acc = record_group ''sexism_misogyny_transphobia''
                  ''Sexism/misogyny/transphobia detected''
                  (any_search rt (SEXISM_MISOGYNY_TRANSPHOBIA_PATTERNS rt) text_lower) acc;
          custom_flags = fst acc;
          reasons = snd acc;
          is_flagged = py_any
            [dict_get_default custom_flags ''explicit_content'' False,
             dict_get_default custom_flags ''suggestive_context'' False,
             dict_get_default custom_flags ''body_shaming'' False,
             dict_get_default custom_flags ''emotional_abuse'' False,
             dict_get_default custom_flags ''racism_hate_speech'' False,
             dict_get_default custom_flags ''transactional_dating'' False,
             dict_get_default custom_flags ''sexism_misogyny_transphobia'' False];
          reason = (if reasons \<noteq> [] then str_join ''; '' reasons
                    else ''No custom pattern violations detected'')
      in (is_flagged, custom_flags, reason))"

text \<open>
  The seven rule groups as a table, for stating what the matcher computes: the key of the
  group in \<open>custom_flags\<close>, its description, and whether one of its patterns is found in
  the lower-cased text.
\<close>

definition rule_groups :: "runtime \<Rightarrow> string \<Rightarrow> (string \<times> string \<times> bool) list" where
  "rule_groups rt text_lower =
    [(''explicit_content'', ''Explicit sexual/inappropriate language detected'',
        any_search rt INAPPROPRIATE_PATTERNS text_lower),
     (''suggestive_context'', ''Suggestive/sexual context detected'',
        any_search rt suggestive_indicators text_lower),
     (''body_shaming'', ''Body shaming/appearance-based harassment detected'',
        any_search rt (BODY_SHAMING_PATTERNS rt) text_lower),
     (''emotional_abuse'', ''Emotional abuse/manipulation detected'',
        any_search rt (EMOTIONAL_ABUSE_PATTERNS rt) text_lower),
     (''racism_hate_speech'', ''Racism/hate speech detected'',
        any_search rt (RACISM_HATE_SPEECH_PATTERNS rt) text_lower),
     (''transactional_dating'', ''Transactional/sugar-dating language detected'',
        any_search rt (TRANSACTIONAL_DATING_PATTERNS rt) text_lower),
     (''sexism_misogyny_transphobia'', ''Sexism/misogyny/transphobia detected'',
        any_search rt (SEXISM_MISOGYNY_TRANSPHOBIA_PATTERNS rt) text_lower)]"

definition group_matched :: "string \<times> string \<times> bool \<Rightarrow> bool" where
  "group_matched g = snd (snd g)"

definition group_flag :: "string \<times> string \<times> bool \<Rightarrow> string \<times> bool" where
  "group_flag g = (fst g, snd (snd g))"

definition group_description :: "string \<times> string \<times> bool \<Rightarrow> string" where
  "group_description g = fst (snd g)"

section \<open>moderation.py: the classifier stage and the decision\<close>

text \<open>
  \<open>response.results[0]\<close> of the moderation endpoint: the provider's own flag, its
  categories and its scores per category.
\<close>

record moderation_result =
  result_flagged :: bool
  result_categories :: "(string \<times> bool) list"
  result_category_scores :: "(string \<times> rat) list"

text \<open>The dict \<open>openai_data\<close>; the empty dict of the failure branch is \<open>None\<close>.\<close>

record openai_data =
  data_categories :: "(string \<times> bool) list"
  data_category_scores :: "(string \<times> rat) list"
  data_openai_flagged :: bool
  data_custom_threshold_violations :: "string list"

text \<open>
  The verdict dicts that \<open>moderate_text\<close> and \<open>_fast_moderate_text\<close> return. Every one
  has the keys \<open>text\<close>, \<open>flagged\<close> and \<open>custom_flags\<close>; a key that a return statement
  leaves out is \<open>None\<close>.
\<close>

record verdict =
  verdict_text :: string
  flagged :: bool
  detection_method :: "string option"
  openai_flagged :: "bool option"
  custom_flagged :: "bool option"
  custom_flags :: "(string \<times> bool) list"
  reason :: "string option"
  api_call_made :: "bool option"
  categories :: "(string \<times> bool) list option"
  category_scores :: "(string \<times> rat) list option"

text \<open>The cached transcription dict and the response objects.\<close>

record transcription_dict =
  dict_transcript :: string
  dict_file_path :: string
  dict_language_detected :: "string option"
  dict_duration :: "rat option"
  dict_response_format :: string

record transcription_response =
  success :: bool
  transcript :: string
  file_path :: string
  language_detected :: "string option"
  duration :: "rat option"
  response_format_out :: string

record moderated_response = transcription_response +
  moderation_flagged :: bool
  moderation_reason :: string
  is_safe :: bool

record transcription_error =
  error_type :: string
  error_message :: string
  error_file_path :: string

record service_error = transcription_error +
  stage :: string

text \<open>
  The module globals and the effects on the outside that the claims count: the two
  caches and their shared timestamps, the calls of the moderation endpoint, the attempts
  and the calls of the speech-to-text endpoint, and the seconds slept between attempts.
  \<open>fast_transcription.py\<close> and \<open>transcription_with_moderation.py\<close> each declare their
  own caches; a \<open>world\<close> holds the globals of the module whose function runs.
\<close>

record world =
  transcription_cache :: "(string \<times> transcription_dict) list"
  moderation_cache :: "(string \<times> verdict) list"
  cache_timestamps :: "(string \<times> rat) list"
  moderation_calls :: nat
  stt_attempts :: nat
  stt_calls :: nat
  sleeps :: "nat list"

definition CUSTOM_THRESHOLDS :: "(string \<times> rat) list" where
  "CUSTOM_THRESHOLDS =
    [(''sexual'', 5 / 100),
     (''harassment'', 5 / 100),
     (''hate'', 5 / 100),
     (''violence'', 1 / 10),
     (''sexual_minors'', 1 / 100),
     (''sexual/minors'', 1 / 100)]"

text \<open>The loop over \<open>CUSTOM_THRESHOLDS.items()\<close> that collects \<open>flagged_categories\<close>.\<close>

definition flagged_categories :: "runtime \<Rightarrow> moderation_result \<Rightarrow> string list" where
  "flagged_categories rt openai_result =
     concat (map (\<lambda>(category, threshold).
        let score = dict_get_default (result_category_scores openai_result) category 0
        in if score > threshold then [category @ '' ('' @ format_pct rt score @ '')''] else [])
       CUSTOM_THRESHOLDS)"

text \<open>
  \<open>api text\<close> is what the \<open>try\<close> block meets: \<open>Inr\<close> the first result of the response, or
  \<open>Inl (str(e))\<close> for an exception \<open>e\<close> raised in it. Each run of the function calls the
  endpoint once.
\<close>

definition openai_context_analysis ::
  "runtime \<Rightarrow> (string \<Rightarrow> string + moderation_result) \<Rightarrow> world \<Rightarrow> string
    \<Rightarrow> (bool \<times> openai_data option \<times> string) \<times> world" where
  "openai_context_analysis rt api w text =
     (let w' = w\<lparr>moderation_calls := moderation_calls w + 1\<rparr>
      in case api text of
           Inl e \<Rightarrow> ((False, None, ''Context analysis failed: '' @ e), w')
         | Inr openai_result \<Rightarrow>
            (let flagged_cats = flagged_categories rt openai_result;
                 is_flagged = (result_flagged openai_result \<or> length flagged_cats > 0);
                 reason' = ''OpenAI detected harmful context/intent''
                    @ (if flagged_cats \<noteq> [] then '': '' @ str_join '', '' flagged_cats else []);
                 data = \<lparr>data_categories = result_categories openai_result,
                         data_category_scores = result_category_scores openai_result,
                         data_openai_flagged = result_flagged openai_result,
                         data_custom_threshold_violations = flagged_cats\<rparr>
             in ((is_flagged, Some data, reason'), w')))"

definition moderate_text ::
  "runtime \<Rightarrow> (string \<Rightarrow> string + moderation_result) \<Rightarrow> world \<Rightarrow> string
    \<Rightarrow> verdict \<times> world" where
  "moderate_text rt api w transcribed_text =
     (case check_custom_patterns_only rt transcribed_text of
        (custom_flagged', custom_flags', custom_reason) \<Rightarrow>
          if custom_flagged' then
            (\<lparr>verdict_text = transcribed_text, flagged = True, detection_method = None,
              openai_flagged = None, custom_flagged = None, custom_flags = custom_flags',
              reason = None, api_call_made = None, categories = None,
              category_scores = None\<rparr>, w)
          else
            (case openai_context_analysis rt api w transcribed_text of
               ((openai_flagged', data, openai_reason), w') \<Rightarrow>
                 (\<lparr>verdict_text = transcribed_text,
                   flagged = openai_flagged',
                   detection_method =
                     Some (if openai_flagged' then ''openai_context_analysis'' else ''clean''),
                   openai_flagged =
                     Some (case data of None \<Rightarrow> False | Some d \<Rightarrow> data_openai_flagged d),
                   custom_flagged = Some False,
                   custom_flags = custom_flags',
                   reason = Some (if openai_flagged' then openai_reason
                                  else ''Content appears safe after full analysis''),
                   api_call_made = Some True,
                   categories = Some (case data of None \<Rightarrow> [] | Some d \<Rightarrow> data_categories d),
                   category_scores =
                     Some (case data of None \<Rightarrow> [] | Some d \<Rightarrow> data_category_scores d)\<rparr>,
                  w')))"

section \<open>The result cache\<close>

definition ENABLE_CACHING :: bool where "ENABLE_CACHING = True"
definition ENABLE_FAST_MODERATION :: bool where "ENABLE_FAST_MODERATION = True"
definition CACHE_MAX_AGE :: rat where "CACHE_MAX_AGE = 3600"
definition MAX_CACHE_SIZE :: nat where "MAX_CACHE_SIZE = 1000"

text \<open>
  The files on disk, as \<open>Path(file_path).stat()\<close> sees them: \<open>None\<close> when \<open>stat\<close> raises.
  The clock is read by \<open>time.time()\<close>; every function takes the value of each of its
  readings as an argument.
\<close>

record file_stat =
  st_size :: int
  st_mtime :: rat

definition get_file_hash :: "runtime \<Rightarrow> string \<Rightarrow> int \<Rightarrow> pynum \<Rightarrow> string" where
  "get_file_hash rt path file_size file_mtime =
     md5_hexdigest rt (path @ '':'' @ py_str rt (PyInt file_size) @ '':'' @ py_str rt file_mtime)"

definition get_file_info :: "(string \<Rightarrow> file_stat option) \<Rightarrow> string \<Rightarrow> int \<times> pynum" where
  "get_file_info fs path =
     (case fs path of None \<Rightarrow> (0, PyInt 0) | Some st \<Rightarrow> (st_size st, PyFloat (st_mtime st)))"

text \<open>
  \<open>TranscriptionRequest\<close>. The dict \<open>request_params\<close> holds its fields \<open>language\<close>,
  \<open>response_format\<close>, \<open>temperature\<close> and \<open>prompt\<close>, so the request stands for it.
\<close>

record request =
  audio_file_path :: string
  language :: "string option"
  prompt :: "string option"
  response_format :: string
  temperature :: pynum

definition params_str :: "runtime \<Rightarrow> request \<Rightarrow> string" where
  "params_str rt request_params =
     (case language request_params of None \<Rightarrow> ''None'' | Some l \<Rightarrow> l) @ '':''
       @ response_format request_params @ '':'' @ py_str rt (temperature request_params)"

definition transcription_cache_key ::
  "runtime \<Rightarrow> (string \<Rightarrow> file_stat option) \<Rightarrow> string \<Rightarrow> request \<Rightarrow> string" where
  "transcription_cache_key rt fs path request_params =
     (case get_file_info fs path of (file_size, file_mtime) \<Rightarrow>
        ''transcription:'' @ get_file_hash rt path file_size file_mtime @ '':''
          @ params_str rt request_params)"

definition moderation_cache_key :: "runtime \<Rightarrow> string \<Rightarrow> string" where
  "moderation_cache_key rt text = ''moderation:'' @ md5_hexdigest rt text"

text \<open>\<open>_is_cache_valid\<close>, the same in both modules.\<close>

definition is_cache_valid :: "world \<Rightarrow> rat \<Rightarrow> string \<Rightarrow> bool" where
  "is_cache_valid w now cache_key =
     (if \<not> ENABLE_CACHING then False
      else case dict_get (cache_timestamps w) cache_key of
             None \<Rightarrow> False
           | Some timestamp \<Rightarrow> now - timestamp < CACHE_MAX_AGE)"

text \<open>\<open>_get_cached_transcription\<close>, the same in both modules.\<close>

definition get_cached_transcription ::
  "runtime \<Rightarrow> (string \<Rightarrow> file_stat option) \<Rightarrow> world \<Rightarrow> rat \<Rightarrow> string \<Rightarrow> request
    \<Rightarrow> transcription_dict option" where
  "get_cached_transcription rt fs w now path request_params =
     (if \<not> ENABLE_CACHING then None
      else let cache_key = transcription_cache_key rt fs path request_params
           in if is_cache_valid w now cache_key
                 \<and> cache_key \<in> set (map fst (transcription_cache w))
              then dict_get (transcription_cache w) cache_key
              else None)"

definition get_cached_moderation :: "runtime \<Rightarrow> world \<Rightarrow> rat \<Rightarrow> string \<Rightarrow> verdict option" where
  "get_cached_moderation rt w now text =
     (if \<not> ENABLE_CACHING then None
      else let cache_key = moderation_cache_key rt text
           in if is_cache_valid w now cache_key
                 \<and> cache_key \<in> set (map fst (moderation_cache w))
              then dict_get (moderation_cache w) cache_key
              else None)"

text \<open>\<open>_cleanup_old_cache_entries\<close> of \<open>fast_transcription.py\<close>.\<close>

definition ft_expired_keys :: "rat \<Rightarrow> world \<Rightarrow> string list" where
  "ft_expired_keys current_time w =
     map fst (filter (\<lambda>(key, timestamp).
        current_time - timestamp > CACHE_MAX_AGE \<and> prefix ''transcription:'' key)
       (cache_timestamps w))"

definition ft_pop_key :: "string \<Rightarrow> world \<Rightarrow> world" where
  "ft_pop_key key w =
     w\<lparr>cache_timestamps := dict_pop key (cache_timestamps w),
       transcription_cache := dict_pop key (transcription_cache w)\<rparr>"

definition ft_cleanup_old_cache_entries :: "rat \<Rightarrow> world \<Rightarrow> world" where
  "ft_cleanup_old_cache_entries current_time w =
     (let expired_keys = ft_expired_keys current_time w
      in fold ft_pop_key expired_keys w)"

text \<open>\<open>_cleanup_old_cache_entries\<close> of \<open>transcription_with_moderation.py\<close>.\<close>

definition twm_expired_keys :: "rat \<Rightarrow> world \<Rightarrow> string list" where
  "twm_expired_keys current_time w =
     map fst (filter (\<lambda>(key, timestamp). current_time - timestamp > CACHE_MAX_AGE)
       (cache_timestamps w))"

definition twm_pop_key :: "string \<Rightarrow> world \<Rightarrow> world" where
  "twm_pop_key key w =
     (let w' = w\<lparr>cache_timestamps := dict_pop key (cache_timestamps w)\<rparr>
      in if prefix ''transcription:'' key
         then w'\<lparr>transcription_cache := dict_pop key (transcription_cache w')\<rparr>
         else if prefix ''moderation:'' key
         then w'\<lparr>moderation_cache := dict_pop key (moderation_cache w')\<rparr>
         else w')"

definition twm_cleanup_old_cache_entries :: "rat \<Rightarrow> world \<Rightarrow> world" where
  "twm_cleanup_old_cache_entries current_time w =
     (let expired_keys = twm_expired_keys current_time w
      in fold twm_pop_key expired_keys w)"

text \<open>
  \<open>_cache_transcription\<close>: \<open>now\<close> is the clock when the timestamp is written,
  \<open>current_time\<close> the clock that the cleanup reads after it. The two modules differ in
  the cleanup only.
\<close>

definition cache_transcription ::
  "(rat \<Rightarrow> world \<Rightarrow> world) \<Rightarrow> runtime \<Rightarrow> (string \<Rightarrow> file_stat option) \<Rightarrow> world \<Rightarrow> rat \<Rightarrow> rat
    \<Rightarrow> string \<Rightarrow> request \<Rightarrow> transcription_dict \<Rightarrow> world" where
  "cache_transcription cleanup rt fs w now current_time path request_params result =
     (if \<not> ENABLE_CACHING then w
      else let cache_key = transcription_cache_key rt fs path request_params;
               w1 = w\<lparr>transcription_cache := dict_set cache_key result (transcription_cache w)\<rparr>;
               w2 = w1\<lparr>cache_timestamps := dict_set cache_key now (cache_timestamps w1)\<rparr>
           in if length (transcription_cache w2) > MAX_CACHE_SIZE
              then cleanup current_time w2 else w2)"

definition ft_cache_transcription ::
  "runtime \<Rightarrow> (string \<Rightarrow> file_stat option) \<Rightarrow> world \<Rightarrow> rat \<Rightarrow> rat
    \<Rightarrow> string \<Rightarrow> request \<Rightarrow> transcription_dict \<Rightarrow> world" where
  "ft_cache_transcription = cache_transcription ft_cleanup_old_cache_entries"

definition twm_cache_transcription ::
  "runtime \<Rightarrow> (string \<Rightarrow> file_stat option) \<Rightarrow> world \<Rightarrow> rat \<Rightarrow> rat
    \<Rightarrow> string \<Rightarrow> request \<Rightarrow> transcription_dict \<Rightarrow> world" where
  "twm_cache_transcription = cache_transcription twm_cleanup_old_cache_entries"

definition cache_moderation ::
  "runtime \<Rightarrow> world \<Rightarrow> rat \<Rightarrow> rat \<Rightarrow> string \<Rightarrow> verdict \<Rightarrow> world" where
  "cache_moderation rt w now current_time text result =
     (if \<not> ENABLE_CACHING then w
      else let cache_key = moderation_cache_key rt text;
               w1 = w\<lparr>moderation_cache := dict_set cache_key result (moderation_cache w)\<rparr>;
               w2 = w1\<lparr>cache_timestamps := dict_set cache_key now (cache_timestamps w1)\<rparr>
           in if length (moderation_cache w2) > MAX_CACHE_SIZE
              then twm_cleanup_old_cache_entries current_time w2 else w2)"

section \<open>transcription\_with\_moderation.py: the fast moderation\<close>

text \<open>
  \<open>t_get\<close> is the clock at the cache lookup, \<open>t_put\<close> and \<open>t_clean\<close> the clock when the
  verdict is stored and when the cleanup runs.
\<close>

definition fast_moderate_text ::
  "runtime \<Rightarrow> (string \<Rightarrow> string + moderation_result) \<Rightarrow> world \<Rightarrow> rat \<Rightarrow> rat \<Rightarrow> rat \<Rightarrow> string
    \<Rightarrow> verdict \<times> world" where
  "fast_moderate_text rt api w t_get t_put t_clean text =
     (if text = [] \<or> str_strip text = [] then
        (\<lparr>verdict_text = text, flagged = False, detection_method = None,
          openai_flagged = None, custom_flagged = Some False, custom_flags = [],
          reason = Some ''Empty text'', api_call_made = None, categories = None,
          category_scores = None\<rparr>, w)
      else
        case get_cached_moderation rt w t_get text of
          Some cached_result \<Rightarrow> (cached_result, w)
        | None \<Rightarrow>
           (let full = (case moderate_text rt api w text of
                          (result, w') \<Rightarrow>
                            (result, cache_moderation rt w' t_put t_clean text result))
            in if ENABLE_FAST_MODERATION then
                 (case check_custom_patterns_only rt text of
                    (custom_flagged', custom_flags', custom_reason) \<Rightarrow>
                      if custom_flagged' then
                        (let result = \<lparr>verdict_text = text, flagged = True,
                               detection_method = None, openai_flagged = None,
                               custom_flagged = Some True, custom_flags = custom_flags',
                               reason = Some custom_reason, api_call_made = None,
                               categories = None, category_scores = None\<rparr>
                         in (result, cache_moderation rt w t_put t_clean text result))
                      else full)
               else full))"

section \<open>transcription.py\<close>

text \<open>
  The exceptions that the handlers of \<open>transcribe_audio\<close> tell apart, each with its
  \<open>str(e)\<close>. \<open>OtherOpenAIError\<close> is an \<open>openai.OpenAIError\<close> that is neither a rate
  limit nor a timeout; \<open>OtherException\<close> is any exception outside these classes.
\<close>

datatype exn =
    FileNotFoundError string
  | ValueError string
  | RateLimitError string
  | APITimeoutError string
  | OtherOpenAIError string
  | OtherException string

text \<open>
  The attribute \<open>avg_logprob\<close> of a segment: absent, a number, or a value that is no
  number (adding it to a float raises). \<open>seg_attr\<close> is what \<open>hasattr\<close> finds,
  \<open>seg_dict\<close> what the \<open>__dict__\<close> of the segment holds.
\<close>

datatype attr = Absent | Num rat | NotNum

record segment =
  seg_attr :: attr
  seg_dict :: attr

text \<open>
  The object that the speech-to-text call returns: its \<open>text\<close> and \<open>language\<close>
  attributes when it has them, its segments (\<open>None\<close> when the attribute is absent or
  \<open>None\<close>), and \<open>str()\<close> of it.
\<close>

record whisper_response =
  resp_text :: "string option"
  resp_language :: "string option"
  resp_segments :: "segment list option"
  resp_str :: string

text \<open>
  One pass through the \<open>try\<close> block of the retry loop: \<open>open\<close> raises before the
  provider is called, or the call raises, or it returns.
\<close>

datatype attempt_outcome =
    OpenRaises exn
  | CreateRaises exn
  | CreateReturns whisper_response

definition SUPPORTED_FORMATS :: "string list" where
  "SUPPORTED_FORMATS = [''.mp3'', ''.mp4'', ''.mpeg'', ''.mpga'', ''.m4a'', ''.wav'', ''.webm'']"

definition MAX_FILE_SIZE :: int where
  "MAX_FILE_SIZE = 25 * 1024 * 1024"

definition default_confidence :: rat where
  "default_confidence = 85 / 100"

text \<open>The loop over the segments; \<open>None\<close> when an addition raises.\<close>

fun sum_logprobs :: "segment list \<Rightarrow> rat \<times> nat \<Rightarrow> (rat \<times> nat) option" where
  "sum_logprobs [] acc = Some acc"
| "sum_logprobs (s # ss) (total_confidence, segment_count) =
     (case seg_attr s of
        Num x \<Rightarrow> sum_logprobs ss (total_confidence + x, segment_count + 1)
      | NotNum \<Rightarrow> None
      | Absent \<Rightarrow>
         (case seg_dict s of
            Num x \<Rightarrow> sum_logprobs ss (total_confidence + x, segment_count + 1)
          | NotNum \<Rightarrow> None
          | Absent \<Rightarrow> sum_logprobs ss (total_confidence, segment_count)))"

definition calculate_confidence_score :: "whisper_response \<Rightarrow> rat" where
  "calculate_confidence_score transcript_response =
     (case resp_segments transcript_response of
        None \<Rightarrow> default_confidence
      | Some segs \<Rightarrow>
         if segs = [] then default_confidence
         else (case sum_logprobs segs (0, 0) of
                 None \<Rightarrow> 85 / 100
               | Some (total_confidence, segment_count) \<Rightarrow>
                  if segment_count > 0 then
                    (let avg_confidence = total_confidence / of_nat segment_count
                     in max 0 (min 1 (avg_confidence + 1)))
                  else default_confidence))"

definition validate_audio_file ::
  "runtime \<Rightarrow> (string \<Rightarrow> file_stat option) \<Rightarrow> string \<Rightarrow> exn option" where
  "validate_audio_file rt fs path =
     (case fs path of
        None \<Rightarrow> Some (FileNotFoundError (''Audio file not found: '' @ path))
      | Some st \<Rightarrow>
         (let file_extension = path_suffix_lower rt path
          in if file_extension \<notin> set SUPPORTED_FORMATS
             then Some (ValueError (unsupported_format_message rt file_extension))
             else if st_size st > MAX_FILE_SIZE
             then Some (ValueError (file_too_large_message rt (st_size st)))
             else None))"

definition is_rate_limit :: "exn \<Rightarrow> bool" where
  "is_rate_limit e = (case e of RateLimitError m \<Rightarrow> True | _ \<Rightarrow> False)"

definition is_timeout :: "exn \<Rightarrow> bool" where
  "is_timeout e = (case e of APITimeoutError m \<Rightarrow> True | _ \<Rightarrow> False)"

definition outcome_result :: "attempt_outcome \<Rightarrow> exn + whisper_response" where
  "outcome_result out =
     (case out of OpenRaises e \<Rightarrow> Inl e | CreateRaises e \<Rightarrow> Inl e | CreateReturns r \<Rightarrow> Inr r)"

definition reaches_provider :: "attempt_outcome \<Rightarrow> bool" where
  "reaches_provider out = (case out of OpenRaises e \<Rightarrow> False | _ \<Rightarrow> True)"

text \<open>
  The retry loop \<open>for attempt in range(max_retries + 1)\<close>. \<open>stt n\<close> is the outcome of
  the attempt made when \<open>n\<close> attempts have been made before it; the keyword arguments of
  the call (model, format, temperature, language, prompt) reach the provider only. The
  result is the exception that leaves the loop, or the value of \<open>transcript\<close> after it
  (\<open>None\<close> when no attempt assigned it).
\<close>

fun retry_loop ::
  "(nat \<Rightarrow> attempt_outcome) \<Rightarrow> nat \<Rightarrow> nat list \<Rightarrow> world
    \<Rightarrow> (exn + whisper_response option) \<times> world" where
  "retry_loop stt max_retries' [] w = (Inr None, w)"
| "retry_loop stt max_retries' (attempt # rest) w =
     (let out = stt (stt_attempts w);
          w1 = w\<lparr>stt_attempts := stt_attempts w + 1,
                 stt_calls := stt_calls w + (if reaches_provider out then 1 else 0)\<rparr>
      in case outcome_result out of
           Inr transcript' \<Rightarrow> (Inr (Some transcript'), w1)
         | Inl e \<Rightarrow>
            if is_rate_limit e then
              (if attempt < max_retries'
               then retry_loop stt max_retries' rest
                      (w1\<lparr>sleeps := sleeps w1 @ [(attempt + 1) * 2]\<rparr>)
               else (Inl e, w1))
            else if is_timeout e then
              (if attempt < max_retries' then retry_loop stt max_retries' rest w1
               else (Inl e, w1))
            else (Inl e, w1))"

definition max_retries :: nat where
  "max_retries = 2"

text \<open>The \<open>except\<close> clauses of \<open>transcribe_audio\<close>, in their order.\<close>

definition error_of :: "request \<Rightarrow> exn \<Rightarrow> transcription_error" where
  "error_of request e =
     (case e of
        FileNotFoundError m \<Rightarrow>
          \<lparr>error_type = ''FileNotFoundError'', error_message = m,
           error_file_path = audio_file_path request\<rparr>
      | ValueError m \<Rightarrow>
          \<lparr>error_type = ''ValidationError'', error_message = m,
           error_file_path = audio_file_path request\<rparr>
      | RateLimitError m \<Rightarrow>
          \<lparr>error_type = ''OpenAIError'', error_message = ''API error: '' @ m,
           error_file_path = audio_file_path request\<rparr>
      | APITimeoutError m \<Rightarrow>
          \<lparr>error_type = ''OpenAIError'', error_message = ''API error: '' @ m,
           error_file_path = audio_file_path request\<rparr>
      | OtherOpenAIError m \<Rightarrow>
          \<lparr>error_type = ''OpenAIError'', error_message = ''API error: '' @ m,
           error_file_path = audio_file_path request\<rparr>
      | OtherException m \<Rightarrow>
          \<lparr>error_type = ''UnexpectedError'',
           error_message = ''An unexpected error occurred: '' @ m,
           error_file_path = audio_file_path request\<rparr>)"

text \<open>
  Step 4 of \<open>transcribe_audio\<close>: the transcript text, the detected language and the
  confidence score (which is logged only).
\<close>

definition text_or_str :: "whisper_response option \<Rightarrow> string" where
  "text_or_str transcript' =
     (case transcript' of
        None \<Rightarrow> ''None''
      | Some r \<Rightarrow> (case resp_text r of Some t \<Rightarrow> t | None \<Rightarrow> resp_str r))"

definition text_language_confidence ::
  "whisper_response option \<Rightarrow> string \<times> string option \<times> rat" where
  "text_language_confidence transcript' =
     (case transcript' of
        None \<Rightarrow> (''None'', None, 85 / 100)
      | Some r \<Rightarrow>
         (case resp_text r of
            Some t \<Rightarrow> (t, resp_language r, calculate_confidence_score r)
          | None \<Rightarrow> (resp_str r, None, 85 / 100)))"

definition extract_results ::
  "request \<Rightarrow> string \<Rightarrow> whisper_response option \<Rightarrow> string \<times> string option \<times> rat" where
  "extract_results request actual_format transcript' =
     (if actual_format = ''verbose_json'' then text_language_confidence transcript'
      else if response_format request = ''text'' then (text_or_str transcript', None, 85 / 100)
      else if response_format request \<in> set [''json'', ''verbose_json'']
      then text_language_confidence transcript'
      else if response_format request \<in> set [''srt'', ''vtt'']
      then ((case transcript' of None \<Rightarrow> ''None'' | Some r \<Rightarrow> resp_str r), None, 85 / 100)
      else (text_or_str transcript', None, 85 / 100))"

definition transcribe_audio ::
  "runtime \<Rightarrow> (string \<Rightarrow> file_stat option) \<Rightarrow> (nat \<Rightarrow> attempt_outcome) \<Rightarrow> world \<Rightarrow> request
    \<Rightarrow> (transcription_error + transcription_response) \<times> world" where
  "transcribe_audio rt fs stt w request =
     (case validate_audio_file rt fs (audio_file_path request) of
        Some e \<Rightarrow> (Inl (error_of request e), w)
      | None \<Rightarrow>
         (case preprocess_audio rt (audio_file_path request) of
            (processed_file_path, duration') \<Rightarrow>
              (let use_verbose = (response_format request \<in> set [''json'', ''verbose_json'']
                                  \<or> response_format request = ''text'');
                   actual_format = (if use_verbose then ''verbose_json''
                                    else response_format request)
               in case retry_loop stt max_retries [0..<max_retries + 1] w of
                    (Inl e, w') \<Rightarrow> (Inl (error_of request e), w')
                  | (Inr transcript', w') \<Rightarrow>
                     (case extract_results request actual_format transcript' of
                        (transcript_text, detected_language, confidence_score) \<Rightarrow>
                          (Inr \<lparr>success = True, transcript = transcript_text,
                                file_path = audio_file_path request,
                                language_detected = detected_language,
                                duration = Some duration',
                                response_format_out = response_format request\<rparr>, w')))))"

section \<open>fast\_transcription.py\<close>

text \<open>
  \<open>FastTranscriptionService.transcribe\<close>. \<open>t_get\<close> is the clock at the cache lookup,
  \<open>t_put\<close> the clock when the result is stored, \<open>t_clean\<close> the clock that the cleanup
  reads.
\<close>

definition response_of_dict :: "transcription_dict \<Rightarrow> transcription_response" where
  "response_of_dict d =
     \<lparr>success = True, transcript = dict_transcript d, file_path = dict_file_path d,
      language_detected = dict_language_detected d, duration = dict_duration d,
      response_format_out = dict_response_format d\<rparr>"

definition dict_of_response :: "transcription_response \<Rightarrow> transcription_dict" where
  "dict_of_response r =
     \<lparr>dict_transcript = transcript r, dict_file_path = file_path r,
      dict_language_detected = language_detected r, dict_duration = duration r,
      dict_response_format = response_format_out r\<rparr>"

definition stage_error :: "request \<Rightarrow> transcription_error \<Rightarrow> service_error" where
  "stage_error request e =
     \<lparr>error_type = error_type e,
      error_message = ''Transcription failed: '' @ error_message e,
      error_file_path = audio_file_path request, stage = ''transcription''\<rparr>"

definition transcribe ::
  "runtime \<Rightarrow> (string \<Rightarrow> file_stat option) \<Rightarrow> (nat \<Rightarrow> attempt_outcome) \<Rightarrow> world
    \<Rightarrow> rat \<Rightarrow> rat \<Rightarrow> rat \<Rightarrow> request \<Rightarrow> (service_error + transcription_response) \<times> world" where
  "transcribe rt fs stt w t_get t_put t_clean request =
     (case get_cached_transcription rt fs w t_get (audio_file_path request) request of
        Some cached_transcription \<Rightarrow> (Inr (response_of_dict cached_transcription), w)
      | None \<Rightarrow>
         (case transcribe_audio rt fs stt w request of
            (Inl e, w') \<Rightarrow> (Inl (stage_error request e), w')
          | (Inr transcription_result, w') \<Rightarrow>
             (let transcription_dict = dict_of_response transcription_result;
                  w'' = ft_cache_transcription rt fs w' t_put t_clean
                          (audio_file_path request) request transcription_dict
              in (Inr \<lparr>success = True, transcript = transcript transcription_result,
                        file_path = file_path transcription_result,
                        language_detected = language_detected transcription_result,
                        duration = duration transcription_result,
                        response_format_out = response_format_out transcription_result\<rparr>,
                  w''))))"

section \<open>transcription\_with\_moderation.py: the pipeline\<close>

text \<open>
  \<open>FastTranscriptionWithModerationService.transcribe_and_moderate\<close>. \<open>m_get\<close>, \<open>m_put\<close>
  and \<open>m_clean\<close> are the clock readings of the moderation cache.
\<close>

definition moderated ::
  "transcription_response \<Rightarrow> verdict \<Rightarrow> moderated_response" where
  "moderated r moderation_result =
     (let is_flagged = flagged moderation_result;
          moderation_reason' = (case reason moderation_result of
                                  None \<Rightarrow> ''No issues detected'' | Some x \<Rightarrow> x)
      in \<lparr>success = True, transcript = transcript r, file_path = file_path r,
          language_detected = language_detected r, duration = duration r,
          response_format_out = response_format_out r,
          moderation_flagged = is_flagged, moderation_reason = moderation_reason',
          is_safe = (\<not> is_flagged)\<rparr>)"

definition transcribe_and_moderate ::
  "runtime \<Rightarrow> (string \<Rightarrow> file_stat option) \<Rightarrow> (nat \<Rightarrow> attempt_outcome)
    \<Rightarrow> (string \<Rightarrow> string + moderation_result) \<Rightarrow> world
    \<Rightarrow> rat \<Rightarrow> rat \<Rightarrow> rat \<Rightarrow> rat \<Rightarrow> rat \<Rightarrow> rat \<Rightarrow> request
    \<Rightarrow> (service_error + moderated_response) \<times> world" where
  "transcribe_and_moderate rt fs stt api w t_get t_put t_clean m_get m_put m_clean request =
     (case get_cached_transcription rt fs w t_get (audio_file_path request) request of
        Some cached_transcription \<Rightarrow>
          (case fast_moderate_text rt api w m_get m_put m_clean
                  (dict_transcript cached_transcription) of
             (moderation_result, w') \<Rightarrow>
               (Inr (moderated (response_of_dict cached_transcription) moderation_result), w'))
      | None \<Rightarrow>
         (case transcribe_audio rt fs stt w request of
            (Inl e, w') \<Rightarrow> (Inl (stage_error request e), w')
          | (Inr transcription_result, w') \<Rightarrow>
             (let transcription_dict = dict_of_response transcription_result;
                  w'' = twm_cache_transcription rt fs w' t_put t_clean
                          (audio_file_path request) request transcription_dict
              in case fast_moderate_text rt api w'' m_get m_put m_clean
                        (transcript transcription_result) of
                   (moderation_result, w''') \<Rightarrow>
                     (Inr (moderated transcription_result moderation_result), w'''))))"

section \<open>Notions for stating the claims\<close>

text \<open>
  The average log-probability that the loop of \<open>_calculate_confidence_score\<close> reads from
  a segment, the list of them over the segments, and the segments whose \<open>avg_logprob\<close>,
  where present, is a number.
\<close>

definition segment_logprob :: "segment \<Rightarrow> rat option" where
  "segment_logprob s =
     (case seg_attr s of
        Num x \<Rightarrow> Some x
      | NotNum \<Rightarrow> None
      | Absent \<Rightarrow> (case seg_dict s of Num x \<Rightarrow> Some x | _ \<Rightarrow> None))"

definition segment_logprobs :: "segment list \<Rightarrow> rat list" where
  "segment_logprobs segs = List.map_filter segment_logprob segs"

definition numeric_segments :: "segment list \<Rightarrow> bool" where
  "numeric_segments segs =
     list_all (\<lambda>s. seg_attr s \<noteq> NotNum \<and> (seg_attr s = Absent \<longrightarrow> seg_dict s \<noteq> NotNum)) segs"

text \<open>
  For the retry loop: an attempt that fails with a rate limit or a timeout, one that
  fails with a rate limit, what an attempt that ends the loop leaves as its result, the
  world after an attempt, and the world after the sleep that follows a rate limit.
\<close>

definition retryable_failure :: "attempt_outcome \<Rightarrow> bool" where
  "retryable_failure out =
     (case outcome_result out of Inl e \<Rightarrow> is_rate_limit e \<or> is_timeout e | Inr r \<Rightarrow> False)"

definition rate_limited :: "attempt_outcome \<Rightarrow> bool" where
  "rate_limited out = (case outcome_result out of Inl e \<Rightarrow> is_rate_limit e | Inr r \<Rightarrow> False)"

definition loop_result :: "attempt_outcome \<Rightarrow> exn + whisper_response option" where
  "loop_result out = (case outcome_result out of Inl e \<Rightarrow> Inl e | Inr r \<Rightarrow> Inr (Some r))"

definition attempted :: "attempt_outcome \<Rightarrow> world \<Rightarrow> world" where
  "attempted out w =
     w\<lparr>stt_attempts := stt_attempts w + 1,
       stt_calls := stt_calls w + (if reaches_provider out then 1 else 0)\<rparr>"

definition backoff :: "attempt_outcome \<Rightarrow> nat \<Rightarrow> world \<Rightarrow> world" where
  "backoff out seconds w = (if rate_limited out then w\<lparr>sleeps := sleeps w @ [seconds]\<rparr> else w)"

section \<open>Example inputs\<close>

text \<open>
  A runtime to run the model on concrete inputs. Its \<open>re_search\<close> knows one match, which
  Python finds too: the first pattern of \<open>INAPPROPRIATE_PATTERNS\<close> in the text
  \<open>you fucking idiot\<close>; on the other example texts (\<open>hello\<close>, the empty and the blank
  text) no pattern of \<open>moderation.py\<close> matches, and the tables of \<open>pattern_utils\<close> are
  taken empty. The example texts are in lower case, the digest is the identity, and the
  numbers are rendered for the values that the examples use.
\<close>

definition example_runtime :: runtime where
  "example_runtime =
     \<lparr>re_search = (\<lambda>p t. p = wb @ ''(fuck|fucking|fucked)'' @ wb \<and> t = ''you fucking idiot''),
      str_lower = (\<lambda>s. s),
      md5_hexdigest = (\<lambda>s. s),
      py_str = (\<lambda>n. case n of PyInt i \<Rightarrow> (if i = 0 then ''0'' else ''1024'')
                         | PyFloat x \<Rightarrow> ''1700000000.0''),
      format_pct = (\<lambda>x. if x = 6 / 100 then ''6.00%'' else ''20.00%''),
      preprocess_audio = (\<lambda>p. (p, 5)),
      path_suffix_lower = (\<lambda>p. ''.wav''),
      unsupported_format_message = (\<lambda>s. ''Unsupported audio format: '' @ s),
      file_too_large_message = (\<lambda>n. ''File size exceeds maximum allowed size (25MB)''),
      BODY_SHAMING_PATTERNS = [],
      EMOTIONAL_ABUSE_PATTERNS = [],
      RACISM_HATE_SPEECH_PATTERNS = [],
      TRANSACTIONAL_DATING_PATTERNS = [],
      SEXISM_MISOGYNY_TRANSPHOBIA_PATTERNS = []\<rparr>"

definition empty_world :: world where
  "empty_world =
     \<lparr>transcription_cache = [], moderation_cache = [], cache_timestamps = [],
      moderation_calls = 0, stt_attempts = 0, stt_calls = 0, sleeps = []\<rparr>"

definition example_files :: "string \<Rightarrow> file_stat option" where
  "example_files p = (if p = ''a.wav'' then Some \<lparr>st_size = 1024, st_mtime = 1700000000\<rparr> else None)"

definition example_request :: request where
  "example_request =
     \<lparr>audio_file_path = ''a.wav'', language = None, prompt = None,
      response_format = ''text'', temperature = PyInt 0\<rparr>"

definition example_transcript :: "string \<Rightarrow> whisper_response" where
  "example_transcript t =
     \<lparr>resp_text = Some t, resp_language = Some ''english'',
      resp_segments = Some [\<lparr>seg_attr = Num (- (1 / 4)), seg_dict = Num (- (1 / 4))\<rparr>],
      resp_str = t\<rparr>"

definition failing_classifier :: "string \<Rightarrow> string + moderation_result" where
  "failing_classifier t = Inl ''Connection error.''"



definition clean_classifier :: "string \<Rightarrow> string + moderation_result" where
  "clean_classifier t =
     Inr \<lparr>result_flagged = False, result_categories = [], result_category_scores = []\<rparr>"

definition cached_world :: world where
  "cached_world =
     \<lparr>transcription_cache =
        [(''transcription:a.wav:1024:1700000000.0:None:text:0'',
          \<lparr>dict_transcript = ''hello'', dict_file_path = ''a.wav'',
           dict_language_detected = Some ''english'', dict_duration = Some 5,
           dict_response_format = ''text''\<rparr>)],
      moderation_cache = [],
      cache_timestamps = [(''transcription:a.wav:1024:1700000000.0:None:text:0'', 1000)],
      moderation_calls = 0, stt_attempts = 1, stt_calls = 1, sleeps = []\<rparr>"

definition working_provider :: "nat \<Rightarrow> attempt_outcome" where
  "working_provider n = CreateReturns (example_transcript ''hello'')"

definition failing_provider :: "nat \<Rightarrow> attempt_outcome" where
  "failing_provider n = CreateRaises (OtherOpenAIError ''Internal server error.'')"

definition rate_limited_provider :: "nat \<Rightarrow> attempt_outcome" where
  "rate_limited_provider n = CreateRaises (RateLimitError ''Rate limit reached.'')"

definition timing_out_provider :: "nat \<Rightarrow> attempt_outcome" where
  "timing_out_provider n = CreateRaises (APITimeoutError ''Request timed out.'')"

definition flaky_provider :: "nat \<Rightarrow> attempt_outcome" where
  "flaky_provider n =
     (if n = 0 then CreateRaises (RateLimitError ''Rate limit reached.'')
      else CreateReturns (example_transcript ''hello''))"

definition example_response :: transcription_response where
  "example_response =
     \<lparr>success = True, transcript = ''hello'', file_path = ''a.wav'',
      language_detected = Some ''english'', duration = Some 5, response_format_out = ''text''\<rparr>"

definition after_calls :: "nat \<Rightarrow> world" where
  "after_calls n = empty_world\<lparr>stt_attempts := n, stt_calls := n\<rparr>"

definition example_moderated :: moderated_response where
  "example_moderated =
     \<lparr>success = True, transcript = ''hello'', file_path = ''a.wav'',
      language_detected = Some ''english'', duration = Some 5, response_format_out = ''text'',
      moderation_flagged = False,
      moderation_reason = ''Content appears safe after full analysis'', is_safe = True\<rparr>"

section \<open>Properties of the pattern matcher\<close>

lemma record_group_fresh:
  "name \<notin> set (map fst custom_flags') \<Longrightarrow>
   record_group name description matches (custom_flags', reasons) =
     (custom_flags' @ [(name, matches)], reasons @ (if matches then [description] else []))"
  by (simp add: record_group_def dict_set_def)

lemma matched_descriptions_concat:
  "map group_description (filter group_matched gs) =
   concat (map (\<lambda>g. if group_matched g then [group_description g] else []) gs)"
  by (induction gs) simp_all


lemma record_group_chain:
  "record_group ''sexism_misogyny_transphobia'' d7 g7
    (record_group ''transactional_dating'' d6 g6
      (record_group ''racism_hate_speech'' d5 g5
        (record_group ''emotional_abuse'' d4 g4
          (record_group ''body_shaming'' d3 g3
            (record_group ''suggestive_context'' d2 g2
              (record_group ''explicit_content'' d1 g1 ([], []))))))) =
   ([(''explicit_content'', g1), (''suggestive_context'', g2), (''body_shaming'', g3),
     (''emotional_abuse'', g4), (''racism_hate_speech'', g5), (''transactional_dating'', g6),
     (''sexism_misogyny_transphobia'', g7)],
    concat (map (\<lambda>(d, g). if g then [d] else [])
      [(d1, g1), (d2, g2), (d3, g3), (d4, g4), (d5, g5), (d6, g6), (d7, g7)]))"
  by (simp add: record_group_fresh split del: if_split cong: if_cong)

lemma flags_lookup:
  "fl = [(''explicit_content'', g1), (''suggestive_context'', g2), (''body_shaming'', g3),
     (''emotional_abuse'', g4), (''racism_hate_speech'', g5), (''transactional_dating'', g6),
     (''sexism_misogyny_transphobia'', g7)] \<Longrightarrow>
   py_any
    [dict_get_default fl ''explicit_content'' False,
     dict_get_default fl ''suggestive_context'' False,
     dict_get_default fl ''body_shaming'' False,
     dict_get_default fl ''emotional_abuse'' False,
     dict_get_default fl ''racism_hate_speech'' False,
     dict_get_default fl ''transactional_dating'' False,
     dict_get_default fl ''sexism_misogyny_transphobia'' False]
   = py_any [g1, g2, g3, g4, g5, g6, g7]"
  by (simp add: dict_get_default_def)

lemma check_custom_patterns_only_acc:
  "check_custom_patterns_only rt text =
     (let gs = rule_groups rt (str_lower rt text);
          reasons = map group_description (filter group_matched gs)
      in (py_any (map group_matched gs), map group_flag gs,
          if reasons \<noteq> [] then str_join ''; '' reasons
          else ''No custom pattern violations detected''))"
proof -
  have gs: "map group_matched (rule_groups rt t) =
      [any_search rt INAPPROPRIATE_PATTERNS t, any_search rt suggestive_indicators t,
       any_search rt (BODY_SHAMING_PATTERNS rt) t, any_search rt (EMOTIONAL_ABUSE_PATTERNS rt) t,
       any_search rt (RACISM_HATE_SPEECH_PATTERNS rt) t,
       any_search rt (TRANSACTIONAL_DATING_PATTERNS rt) t,
       any_search rt (SEXISM_MISOGYNY_TRANSPHOBIA_PATTERNS rt) t]" for t
    by (simp add: rule_groups_def group_matched_def)
  have fl: "map group_flag (rule_groups rt t) =
      [(''explicit_content'', any_search rt INAPPROPRIATE_PATTERNS t),
       (''suggestive_context'', any_search rt suggestive_indicators t),
       (''body_shaming'', any_search rt (BODY_SHAMING_PATTERNS rt) t),
       (''emotional_abuse'', any_search rt (EMOTIONAL_ABUSE_PATTERNS rt) t),
       (''racism_hate_speech'', any_search rt (RACISM_HATE_SPEECH_PATTERNS rt) t),
       (''transactional_dating'', any_search rt (TRANSACTIONAL_DATING_PATTERNS rt) t),
       (''sexism_misogyny_transphobia'',
          any_search rt (SEXISM_MISOGYNY_TRANSPHOBIA_PATTERNS rt) t)]" for t
    by (simp add: rule_groups_def group_flag_def)
  have ds: "concat (map (\<lambda>g. if group_matched g then [group_description g] else [])
        (rule_groups rt t)) =
      concat (map (\<lambda>(d, g). if g then [d] else [])
       [(''Explicit sexual/inappropriate language detected'',
           any_search rt INAPPROPRIATE_PATTERNS t),
        (''Suggestive/sexual context detected'', any_search rt suggestive_indicators t),
        (''Body shaming/appearance-based harassment detected'',
           any_search rt (BODY_SHAMING_PATTERNS rt) t),
        (''Emotional abuse/manipulation detected'', any_search rt (EMOTIONAL_ABUSE_PATTERNS rt) t),
        (''Racism/hate speech detected'', any_search rt (RACISM_HATE_SPEECH_PATTERNS rt) t),
        (''Transactional/sugar-dating language detected'',
           any_search rt (TRANSACTIONAL_DATING_PATTERNS rt) t),
        (''Sexism/misogyny/transphobia detected'',
           any_search rt (SEXISM_MISOGYNY_TRANSPHOBIA_PATTERNS rt) t)])" for t
    by (simp add: rule_groups_def group_matched_def group_description_def
        split del: if_split cong: if_cong)
  show ?thesis
    unfolding check_custom_patterns_only_def Let_def record_group_chain fst_conv snd_conv
      flags_lookup [OF refl] matched_descriptions_concat gs fl ds
    by (rule refl)
qed

lemma pattern_flagged_iff:
  "fst (check_custom_patterns_only rt text) =
     py_any (map group_matched (rule_groups rt (str_lower rt text)))"
  by (simp add: check_custom_patterns_only_acc Let_def)

lemma pattern_flags:
  "fst (snd (check_custom_patterns_only rt text)) =
     map group_flag (rule_groups rt (str_lower rt text))"
  by (simp add: check_custom_patterns_only_acc Let_def)



section \<open>The confidence score\<close>

lemma sum_logprobs_numeric:
  "numeric_segments segs \<Longrightarrow>
   sum_logprobs segs (tot, n) =
     Some (tot + sum_list (segment_logprobs segs), n + length (segment_logprobs segs))"
proof (induction segs arbitrary: tot n)
  case Nil
  then show ?case by (simp add: segment_logprobs_def)
next
  case (Cons s segs)
  from Cons.prems have rest: "numeric_segments segs"
    by (simp add: numeric_segments_def)
  from Cons.prems have s: "seg_attr s \<noteq> NotNum" "seg_attr s = Absent \<longrightarrow> seg_dict s \<noteq> NotNum"
    by (simp_all add: numeric_segments_def)
  show ?case
  proof (cases "seg_attr s")
    case Absent
    with s show ?thesis
      by (cases "seg_dict s")
         (simp_all add: Cons.IH [OF rest] segment_logprobs_def segment_logprob_def)
  next
    case (Num x)
    then show ?thesis
      by (simp add: Cons.IH [OF rest] segment_logprobs_def segment_logprob_def)
  next
    case NotNum
    with s show ?thesis by simp
  qed
qed

lemma confidence_in_unit_interval:
  "0 \<le> calculate_confidence_score r \<and> calculate_confidence_score r \<le> 1"
  by (simp add: calculate_confidence_score_def default_confidence_def Let_def
      split: option.splits prod.splits)

text \<open>
  Claim C6. For every response of the provider the confidence score lies in \<open>[0, 1]\<close>.
  When the segments carry average log-probabilities (every \<open>avg_logprob\<close> present is a
  number, and one is present at least) the score is \<open>max 0 (min 1 (m + 1))\<close> for the
  mean \<open>m\<close> of those log-probabilities. When there is no segment data (no segments, an
  empty list of them, or segments none of which has an \<open>avg_logprob\<close>) the score is the
  default \<open>0.85\<close>.
\<close>

theorem calculate_confidence_score_clamped:
  "(0 \<le> calculate_confidence_score r \<and> calculate_confidence_score r \<le> 1) \<and>
   (resp_segments r = Some segs \<and> numeric_segments segs \<and> segment_logprobs segs \<noteq> [] \<longrightarrow>
      calculate_confidence_score r =
        max 0 (min 1 (sum_list (segment_logprobs segs) / of_nat (length (segment_logprobs segs))
                      + 1))) \<and>
   (resp_segments r = None
      \<or> (resp_segments r = Some segs \<and> numeric_segments segs \<and> segment_logprobs segs = [])
      \<longrightarrow> calculate_confidence_score r = 85 / 100)"
proof (intro conjI impI)
  show "0 \<le> calculate_confidence_score r" "calculate_confidence_score r \<le> 1"
    using confidence_in_unit_interval [of r] by simp_all
next
  assume h: "resp_segments r = Some segs \<and> numeric_segments segs \<and> segment_logprobs segs \<noteq> []"
  then have ne: "segs \<noteq> []"
    by (auto simp: segment_logprobs_def)
  from h show "calculate_confidence_score r =
        max 0 (min 1 (sum_list (segment_logprobs segs) / of_nat (length (segment_logprobs segs))
                      + 1))"
    by (simp add: calculate_confidence_score_def sum_logprobs_numeric ne Let_def)
next
  assume "resp_segments r = None
      \<or> (resp_segments r = Some segs \<and> numeric_segments segs \<and> segment_logprobs segs = [])"
  then show "calculate_confidence_score r = 85 / 100"
    by (auto simp: calculate_confidence_score_def sum_logprobs_numeric default_confidence_def)
qed

theorem calculate_confidence_score_clamped_witness:
  "calculate_confidence_score (example_transcript ''hi'') = 3 / 4 \<and>
   calculate_confidence_score
     \<lparr>resp_text = Some ''hi'', resp_language = None, resp_segments = None, resp_str = ''hi''\<rparr>
     = 85 / 100"
proof -
  let ?segs = "[\<lparr>seg_attr = Num (- (1 / 4)), seg_dict = Num (- (1 / 4))\<rparr>]"
  have lp: "segment_logprobs ?segs = [- (1 / 4)]"
    by (simp add: segment_logprobs_def segment_logprob_def List.map_filter_simps)
  have a: "resp_segments (example_transcript ''hi'') = Some ?segs \<and> numeric_segments ?segs
      \<and> segment_logprobs ?segs \<noteq> []"
    by (simp add: example_transcript_def numeric_segments_def lp)
  have b: "resp_segments \<lparr>resp_text = Some ''hi'', resp_language = None, resp_segments = None,
      resp_str = ''hi''\<rparr> = None"
    by simp
  from calculate_confidence_score_clamped [of "example_transcript ''hi''" ?segs] a
  have "calculate_confidence_score (example_transcript ''hi'') = 3 / 4"
    by (simp add: lp)
  moreover from calculate_confidence_score_clamped
    [of "\<lparr>resp_text = Some ''hi'', resp_language = None, resp_segments = None,
      resp_str = ''hi''\<rparr>" "[]"] b
  have "calculate_confidence_score
     \<lparr>resp_text = Some ''hi'', resp_language = None, resp_segments = None, resp_str = ''hi''\<rparr>
     = 85 / 100"
    by simp
  ultimately show ?thesis by simp
qed

section \<open>Cache validity\<close>

lemma dict_get_in_keys: "dict_get d k = Some v \<Longrightarrow> k \<in> fst ` set d"
  unfolding dict_get_def by (metis map_of_eq_None_iff option.distinct(1))

lemma is_cache_valid_iff:
  "dict_get (cache_timestamps w) key = Some inserted_at \<Longrightarrow>
   is_cache_valid w now key \<longleftrightarrow> now - inserted_at < CACHE_MAX_AGE"
  by (simp add: is_cache_valid_def ENABLE_CACHING_def)

lemma get_cached_transcription_entry:
  "dict_get (cache_timestamps w) (transcription_cache_key rt fs path req) = Some inserted_at \<Longrightarrow>
   dict_get (transcription_cache w) (transcription_cache_key rt fs path req) = Some d \<Longrightarrow>
   get_cached_transcription rt fs w now path req =
     (if now - inserted_at < CACHE_MAX_AGE then Some d else None)"
  by (simp add: get_cached_transcription_def ENABLE_CACHING_def Let_def is_cache_valid_iff
      dict_get_in_keys)

lemma get_cached_moderation_entry:
  "dict_get (cache_timestamps w) (moderation_cache_key rt t) = Some inserted_at \<Longrightarrow>
   dict_get (moderation_cache w) (moderation_cache_key rt t) = Some v \<Longrightarrow>
   get_cached_moderation rt w now t =
     (if now - inserted_at < CACHE_MAX_AGE then Some v else None)"
  by (simp add: get_cached_moderation_def ENABLE_CACHING_def Let_def is_cache_valid_iff
      dict_get_in_keys)

text \<open>
  Claim C7. The default TTL \<open>CACHE_MAX_AGE\<close> is 3600 seconds. For an entry whose
  timestamp is \<open>inserted_at\<close>, \<open>_is_cache_valid\<close> holds at the time \<open>now\<close> if and only if
  \<open>now - inserted_at < CACHE_MAX_AGE\<close>. A transcription stored under its key, and a
  verdict stored under its key, is returned by the lookup exactly when that holds, and
  the lookup returns \<open>None\<close> otherwise, though the entry is still stored; so at any time
  \<open>now \<ge> inserted_at + CACHE_MAX_AGE\<close> the lookup misses.
\<close>

theorem cache_hit_iff_within_ttl:
  "CACHE_MAX_AGE = 3600 \<and>
   (dict_get (cache_timestamps w) key = Some inserted_at \<longrightarrow>
      (is_cache_valid w now key \<longleftrightarrow> now - inserted_at < CACHE_MAX_AGE)) \<and>
   (dict_get (cache_timestamps w) (transcription_cache_key rt fs path req) = Some inserted_at
      \<and> dict_get (transcription_cache w) (transcription_cache_key rt fs path req) = Some d \<longrightarrow>
      (get_cached_transcription rt fs w now path req = Some d
         \<longleftrightarrow> now - inserted_at < CACHE_MAX_AGE) \<and>
      (now \<ge> inserted_at + CACHE_MAX_AGE \<longrightarrow>
         get_cached_transcription rt fs w now path req = None)) \<and>
   (dict_get (cache_timestamps w) (moderation_cache_key rt t) = Some inserted_at
      \<and> dict_get (moderation_cache w) (moderation_cache_key rt t) = Some v \<longrightarrow>
      (get_cached_moderation rt w now t = Some v \<longleftrightarrow> now - inserted_at < CACHE_MAX_AGE) \<and>
      (now \<ge> inserted_at + CACHE_MAX_AGE \<longrightarrow> get_cached_moderation rt w now t = None))"
proof (intro conjI impI)
  show "CACHE_MAX_AGE = 3600" by (simp add: CACHE_MAX_AGE_def)
next
  assume "dict_get (cache_timestamps w) key = Some inserted_at"
  then show "is_cache_valid w now key \<longleftrightarrow> now - inserted_at < CACHE_MAX_AGE"
    by (rule is_cache_valid_iff)
next
  assume h: "dict_get (cache_timestamps w) (transcription_cache_key rt fs path req)
        = Some inserted_at
      \<and> dict_get (transcription_cache w) (transcription_cache_key rt fs path req) = Some d"
  then show "get_cached_transcription rt fs w now path req = Some d
         \<longleftrightarrow> now - inserted_at < CACHE_MAX_AGE"
    by (simp add: get_cached_transcription_entry)
  assume "now \<ge> inserted_at + CACHE_MAX_AGE"
  with h show "get_cached_transcription rt fs w now path req = None"
    by (simp add: get_cached_transcription_entry)
next
  assume h: "dict_get (cache_timestamps w) (moderation_cache_key rt t) = Some inserted_at
      \<and> dict_get (moderation_cache w) (moderation_cache_key rt t) = Some v"
  then show "get_cached_moderation rt w now t = Some v \<longleftrightarrow> now - inserted_at < CACHE_MAX_AGE"
    by (simp add: get_cached_moderation_entry)
  assume "now \<ge> inserted_at + CACHE_MAX_AGE"
  with h show "get_cached_moderation rt w now t = None"
    by (simp add: get_cached_moderation_entry)
qed

theorem cache_hit_iff_within_ttl_witness:
  "dict_get (cache_timestamps cached_world)
      (transcription_cache_key example_runtime example_files ''a.wav'' example_request)
     = Some 1000 \<and>
   get_cached_transcription example_runtime example_files cached_world 4599 ''a.wav''
      example_request
     = Some \<lparr>dict_transcript = ''hello'', dict_file_path = ''a.wav'',
             dict_language_detected = Some ''english'', dict_duration = Some 5,
             dict_response_format = ''text''\<rparr> \<and>
   get_cached_transcription example_runtime example_files cached_world 4600 ''a.wav''
      example_request = None"
proof -
  let ?d = "\<lparr>dict_transcript = ''hello'', dict_file_path = ''a.wav'',
             dict_language_detected = Some ''english'', dict_duration = Some 5,
             dict_response_format = ''text''\<rparr>"
  have key: "transcription_cache_key example_runtime example_files ''a.wav'' example_request
      = ''transcription:a.wav:1024:1700000000.0:None:text:0''"
    by (simp add: transcription_cache_key_def get_file_info_def example_files_def
        get_file_hash_def example_runtime_def params_str_def example_request_def)
  have ts: "dict_get (cache_timestamps cached_world)
      (transcription_cache_key example_runtime example_files ''a.wav'' example_request)
     = Some 1000"
    by (simp add: key cached_world_def dict_get_def)
  have en: "dict_get (transcription_cache cached_world)
      (transcription_cache_key example_runtime example_files ''a.wav'' example_request)
     = Some ?d"
    by (simp add: key cached_world_def dict_get_def)
  have hit: "get_cached_transcription example_runtime example_files cached_world 4599 ''a.wav''
      example_request = Some ?d"
    using cache_hit_iff_within_ttl [of cached_world _ 1000 4599 example_runtime example_files
        "''a.wav''" example_request ?d] ts en
    by (simp add: CACHE_MAX_AGE_def)
  have miss: "get_cached_transcription example_runtime example_files cached_world 4600 ''a.wav''
      example_request = None"
    using cache_hit_iff_within_ttl [of cached_world _ 1000 4600 example_runtime example_files
        "''a.wav''" example_request ?d] ts en
    by (simp add: CACHE_MAX_AGE_def)
  from ts hit miss show ?thesis by simp
qed

section \<open>The moderation decision\<close>




lemma openai_context_analysis_failure:
  "api t = Inl e \<Longrightarrow>
   openai_context_analysis rt api w t =
     ((False, None, ''Context analysis failed: '' @ e),
      w\<lparr>moderation_calls := moderation_calls w + 1\<rparr>)"
  by (simp add: openai_context_analysis_def)

lemma openai_context_analysis_success:
  "api t = Inr res \<Longrightarrow>
   openai_context_analysis rt api w t =
     ((result_flagged res \<or> flagged_categories rt res \<noteq> [],
       Some \<lparr>data_categories = result_categories res,
             data_category_scores = result_category_scores res,
             data_openai_flagged = result_flagged res,
             data_custom_threshold_violations = flagged_categories rt res\<rparr>,
       ''OpenAI detected harmful context/intent''
         @ (if flagged_categories rt res \<noteq> [] then '': '' @ str_join '', '' (flagged_categories rt res)
            else [])),
      w\<lparr>moderation_calls := moderation_calls w + 1\<rparr>)"
  by (simp add: openai_context_analysis_def Let_def)

lemma moderate_text_pattern_path:
  "fst (check_custom_patterns_only rt t) \<Longrightarrow>
   moderate_text rt api w t =
     (\<lparr>verdict_text = t, flagged = True, detection_method = None, openai_flagged = None,
       custom_flagged = None, custom_flags = fst (snd (check_custom_patterns_only rt t)),
       reason = None, api_call_made = None, categories = None, category_scores = None\<rparr>, w)"
  by (cases "check_custom_patterns_only rt t") (simp add: moderate_text_def)

lemma moderate_text_classifier_path:
  "\<not> fst (check_custom_patterns_only rt t) \<Longrightarrow>
   openai_context_analysis rt api w t = ((fl, data, rsn), w') \<Longrightarrow>
   moderate_text rt api w t =
     (\<lparr>verdict_text = t, flagged = fl,
       detection_method = Some (if fl then ''openai_context_analysis'' else ''clean''),
       openai_flagged = Some (case data of None \<Rightarrow> False | Some d \<Rightarrow> data_openai_flagged d),
       custom_flagged = Some False,
       custom_flags = fst (snd (check_custom_patterns_only rt t)),
       reason = Some (if fl then rsn else ''Content appears safe after full analysis''),
       api_call_made = Some True,
       categories = Some (case data of None \<Rightarrow> [] | Some d \<Rightarrow> data_categories d),
       category_scores = Some (case data of None \<Rightarrow> [] | Some d \<Rightarrow> data_category_scores d)\<rparr>,
      w')"
  by (cases "check_custom_patterns_only rt t") (simp add: moderate_text_def)

lemma example_groups:
  "map group_matched (rule_groups example_runtime t)
     = [t = ''you fucking idiot'', False, False, False, False, False, False]"
proof -
  have a: "any_search example_runtime INAPPROPRIATE_PATTERNS t \<longleftrightarrow> t = ''you fucking idiot''"
    by (simp add: any_search_def example_runtime_def INAPPROPRIATE_PATTERNS_def wb_def)
  have b: "\<not> any_search example_runtime suggestive_indicators t"
    by (simp add: any_search_def example_runtime_def suggestive_indicators_def wb_def)
  have c: "\<not> any_search example_runtime [] t"
    by (simp add: any_search_def)
  have d: "BODY_SHAMING_PATTERNS example_runtime = []"
    "EMOTIONAL_ABUSE_PATTERNS example_runtime = []"
    "RACISM_HATE_SPEECH_PATTERNS example_runtime = []"
    "TRANSACTIONAL_DATING_PATTERNS example_runtime = []"
    "SEXISM_MISOGYNY_TRANSPHOBIA_PATTERNS example_runtime = []"
    by (simp_all add: example_runtime_def)
  show ?thesis
    by (simp add: rule_groups_def group_matched_def a b c d)
qed

lemma example_pattern_flagged:
  "fst (check_custom_patterns_only example_runtime t) \<longleftrightarrow> t = ''you fucking idiot''"
  by (simp add: pattern_flagged_iff example_groups py_any_def)
     (simp add: example_runtime_def)



lemma example_check:
  "check_custom_patterns_only example_runtime t =
     (t = ''you fucking idiot'',
      [(''explicit_content'', t = ''you fucking idiot''), (''suggestive_context'', False),
       (''body_shaming'', False), (''emotional_abuse'', False), (''racism_hate_speech'', False),
       (''transactional_dating'', False), (''sexism_misogyny_transphobia'', False)],
      if t = ''you fucking idiot'' then ''Explicit sexual/inappropriate language detected''
      else ''No custom pattern violations detected'')"
proof -
  have l: "str_lower example_runtime t = t"
    by (simp add: example_runtime_def)
  have a: "any_search example_runtime INAPPROPRIATE_PATTERNS t \<longleftrightarrow> t = ''you fucking idiot''"
    by (simp add: any_search_def example_runtime_def INAPPROPRIATE_PATTERNS_def wb_def)
  have b: "\<not> any_search example_runtime suggestive_indicators t"
    by (simp add: any_search_def example_runtime_def suggestive_indicators_def wb_def)
  have c: "\<not> any_search example_runtime [] t"
    by (simp add: any_search_def)
  have d: "BODY_SHAMING_PATTERNS example_runtime = []"
    "EMOTIONAL_ABUSE_PATTERNS example_runtime = []"
    "RACISM_HATE_SPEECH_PATTERNS example_runtime = []"
    "TRANSACTIONAL_DATING_PATTERNS example_runtime = []"
    "SEXISM_MISOGYNY_TRANSPHOBIA_PATTERNS example_runtime = []"
    by (simp_all add: example_runtime_def)
  have g: "rule_groups example_runtime t =
     [(''explicit_content'', ''Explicit sexual/inappropriate language detected'',
         t = ''you fucking idiot''),
      (''suggestive_context'', ''Suggestive/sexual context detected'', False),
      (''body_shaming'', ''Body shaming/appearance-based harassment detected'', False),
      (''emotional_abuse'', ''Emotional abuse/manipulation detected'', False),
      (''racism_hate_speech'', ''Racism/hate speech detected'', False),
      (''transactional_dating'', ''Transactional/sugar-dating language detected'', False),
      (''sexism_misogyny_transphobia'', ''Sexism/misogyny/transphobia detected'', False)]"
    by (simp add: rule_groups_def a b c d)
  show ?thesis
    unfolding check_custom_patterns_only_acc l g
    by (simp add: Let_def py_any_def group_matched_def group_flag_def group_description_def)
qed

lemma no_violations_without_scores:
  "result_category_scores res = [] \<Longrightarrow> flagged_categories rt res = []"
  by (simp add: flagged_categories_def CUSTOM_THRESHOLDS_def dict_get_default_def)

text \<open>
  What \<open>moderate_text\<close> returns, for any text that no rule group matches, when the
  classifier call raises: the exception does not leave it, the classifier has been
  called once, and the verdict is not flagged. \<open>openai_context_analysis\<close> returns the
  reason \<open>Context analysis failed: <error>\<close>; the verdict has the reason and the
  detection method of a clean result.
\<close>

lemma moderate_text_classifier_failure:
  "\<not> fst (check_custom_patterns_only rt t) \<and> api t = Inl e \<longrightarrow>
     fst (openai_context_analysis rt api w t) = (False, None, ''Context analysis failed: '' @ e) \<and>
     moderate_text rt api w t =
       (\<lparr>verdict_text = t, flagged = False, detection_method = Some ''clean'',
         openai_flagged = Some False, custom_flagged = Some False,
         custom_flags = fst (snd (check_custom_patterns_only rt t)),
         reason = Some ''Content appears safe after full analysis'',
         api_call_made = Some True, categories = Some [], category_scores = Some []\<rparr>,
        w\<lparr>moderation_calls := moderation_calls w + 1\<rparr>)"
proof (intro impI, elim conjE)
  assume a: "\<not> fst (check_custom_patterns_only rt t)" and b: "api t = Inl e"
  from moderate_text_classifier_path [OF a openai_context_analysis_failure [of api t e, OF b]]
  show "fst (openai_context_analysis rt api w t) = (False, None, ''Context analysis failed: '' @ e) \<and>
     moderate_text rt api w t =
       (\<lparr>verdict_text = t, flagged = False, detection_method = Some ''clean'',
         openai_flagged = Some False, custom_flagged = Some False,
         custom_flags = fst (snd (check_custom_patterns_only rt t)),
         reason = Some ''Content appears safe after full analysis'',
         api_call_made = Some True, categories = Some [], category_scores = Some []\<rparr>,
        w\<lparr>moderation_calls := moderation_calls w + 1\<rparr>)"
    by (simp add: openai_context_analysis_failure [of api t e, OF b])
qed

text \<open>
  Claim C2. For every text, if the classifier call fails, the moderation decision treats
  the text as not flagged, and the reason of the verdict reflects the failure. The code
  keeps the first half and breaks the second. On the text \<open>hello\<close>, which no rule group
  matches, with a classifier call that raises \<open>Connection error.\<close>:
  \<open>openai_context_analysis\<close> returns the reason
  \<open>Context analysis failed: Connection error.\<close>, and \<open>moderate_text\<close>, which takes
  that reason only when the classifier stage flagged the text, returns an unflagged
  verdict with the reason \<open>Content appears safe after full analysis\<close>, the detection
  method \<open>clean\<close> and \<open>api_call_made = True\<close>. The verdict, and the world after the
  call, are the ones of a classifier call that returned a result with no flag, no
  categories and no scores: the failure cannot be told from a clean analysis.
\<close>

theorem classifier_failure_reported_as_clean:
  "fst (openai_context_analysis example_runtime failing_classifier empty_world ''hello'')
     = (False, None, ''Context analysis failed: Connection error.'') \<and>
   moderate_text example_runtime failing_classifier empty_world ''hello'' =
     (\<lparr>verdict_text = ''hello'', flagged = False, detection_method = Some ''clean'',
       openai_flagged = Some False, custom_flagged = Some False,
       custom_flags =
         [(''explicit_content'', False), (''suggestive_context'', False),
          (''body_shaming'', False), (''emotional_abuse'', False),
          (''racism_hate_speech'', False), (''transactional_dating'', False),
          (''sexism_misogyny_transphobia'', False)],
       reason = Some ''Content appears safe after full analysis'',
       api_call_made = Some True, categories = Some [], category_scores = Some []\<rparr>,
      empty_world\<lparr>moderation_calls := 1\<rparr>) \<and>
   moderate_text example_runtime clean_classifier empty_world ''hello''
     = moderate_text example_runtime failing_classifier empty_world ''hello''"
proof -
  have a: "\<not> fst (check_custom_patterns_only example_runtime ''hello'')"
    by (simp add: example_check)
  have b: "failing_classifier ''hello'' = Inl ''Connection error.''"
    by (simp add: failing_classifier_def)
  have c: "clean_classifier ''hello''
      = Inr \<lparr>result_flagged = False, result_categories = [], result_category_scores = []\<rparr>"
    by (simp add: clean_classifier_def)
  note fail = openai_context_analysis_failure
    [of failing_classifier "''hello''" "''Connection error.''", OF b]
  note clean = openai_context_analysis_success
    [of clean_classifier "''hello''"
      "\<lparr>result_flagged = False, result_categories = [], result_category_scores = []\<rparr>", OF c]
  have f: "moderate_text example_runtime failing_classifier empty_world ''hello'' =
     (\<lparr>verdict_text = ''hello'', flagged = False, detection_method = Some ''clean'',
       openai_flagged = Some False, custom_flagged = Some False,
       custom_flags =
         [(''explicit_content'', False), (''suggestive_context'', False),
          (''body_shaming'', False), (''emotional_abuse'', False),
          (''racism_hate_speech'', False), (''transactional_dating'', False),
          (''sexism_misogyny_transphobia'', False)],
       reason = Some ''Content appears safe after full analysis'',
       api_call_made = Some True, categories = Some [], category_scores = Some []\<rparr>,
      empty_world\<lparr>moderation_calls := 1\<rparr>)"
    unfolding moderate_text_classifier_path [OF a fail]
    by (simp add: example_check empty_world_def)
  have g: "moderate_text example_runtime clean_classifier empty_world ''hello'' =
     (\<lparr>verdict_text = ''hello'', flagged = False, detection_method = Some ''clean'',
       openai_flagged = Some False, custom_flagged = Some False,
       custom_flags =
         [(''explicit_content'', False), (''suggestive_context'', False),
          (''body_shaming'', False), (''emotional_abuse'', False),
          (''racism_hate_speech'', False), (''transactional_dating'', False),
          (''sexism_misogyny_transphobia'', False)],
       reason = Some ''Content appears safe after full analysis'',
       api_call_made = Some True, categories = Some [], category_scores = Some []\<rparr>,
      empty_world\<lparr>moderation_calls := 1\<rparr>)"
    unfolding moderate_text_classifier_path [OF a clean]
    by (simp add: example_check empty_world_def no_violations_without_scores)
  have h: "fst (openai_context_analysis example_runtime failing_classifier empty_world ''hello'')
     = (False, None, ''Context analysis failed: Connection error.'')"
    by (simp add: fail)
  from f g h show ?thesis by (simp only: simp_thms)
qed

lemma fold_twm_pop_key_calls:
  "moderation_calls (fold twm_pop_key keys w) = moderation_calls w \<and>
   stt_calls (fold twm_pop_key keys w) = stt_calls w \<and>
   stt_attempts (fold twm_pop_key keys w) = stt_attempts w \<and>
   sleeps (fold twm_pop_key keys w) = sleeps w"
  by (induction keys arbitrary: w) (simp_all add: twm_pop_key_def Let_def)

lemma twm_cleanup_moderation_calls:
  "moderation_calls (twm_cleanup_old_cache_entries now w) = moderation_calls w"
  by (simp add: twm_cleanup_old_cache_entries_def Let_def fold_twm_pop_key_calls)

lemma cache_moderation_calls:
  "moderation_calls (cache_moderation rt w now now' t v) = moderation_calls w"
  by (simp add: cache_moderation_def Let_def twm_cleanup_moderation_calls)

lemma fast_moderate_text_pattern_path:
  "t \<noteq> [] \<Longrightarrow> str_strip t \<noteq> [] \<Longrightarrow> get_cached_moderation rt w t_get t = None \<Longrightarrow>
   fst (check_custom_patterns_only rt t) \<Longrightarrow>
   fast_moderate_text rt api w t_get t_put t_clean t =
     (\<lparr>verdict_text = t, flagged = True, detection_method = None, openai_flagged = None,
       custom_flagged = Some True, custom_flags = fst (snd (check_custom_patterns_only rt t)),
       reason = Some (snd (snd (check_custom_patterns_only rt t))), api_call_made = None,
       categories = None, category_scores = None\<rparr>,
      cache_moderation rt w t_put t_clean t
        \<lparr>verdict_text = t, flagged = True, detection_method = None, openai_flagged = None,
         custom_flagged = Some True, custom_flags = fst (snd (check_custom_patterns_only rt t)),
         reason = Some (snd (snd (check_custom_patterns_only rt t))), api_call_made = None,
         categories = None, category_scores = None\<rparr>)"
  by (cases "check_custom_patterns_only rt t")
     (simp add: fast_moderate_text_def ENABLE_FAST_MODERATION_def Let_def)

text \<open>
  What the two functions do on the pattern path, for any text that a rule group matches.
  \<open>moderate_text\<close> returns a flagged verdict and leaves the world as it was, so the
  classifier is not called. \<open>_fast_moderate_text\<close>, when the text is not blank and the
  moderation cache has no valid verdict for it, returns a flagged verdict with
  \<open>custom_flagged = True\<close> and the reason of the pattern matcher, and the classifier is
  not called either.
\<close>

lemma pattern_match_short_circuit:
  "fst (check_custom_patterns_only rt t) \<longrightarrow>
     moderate_text rt api w t =
       (\<lparr>verdict_text = t, flagged = True, detection_method = None, openai_flagged = None,
         custom_flagged = None, custom_flags = fst (snd (check_custom_patterns_only rt t)),
         reason = None, api_call_made = None, categories = None, category_scores = None\<rparr>, w) \<and>
     py_any (map snd (fst (snd (check_custom_patterns_only rt t)))) \<and>
     (t \<noteq> [] \<and> str_strip t \<noteq> [] \<and> get_cached_moderation rt w t_get t = None \<longrightarrow>
        fst (fast_moderate_text rt api w t_get t_put t_clean t) =
          \<lparr>verdict_text = t, flagged = True, detection_method = None, openai_flagged = None,
           custom_flagged = Some True,
           custom_flags = fst (snd (check_custom_patterns_only rt t)),
           reason = Some (snd (snd (check_custom_patterns_only rt t))), api_call_made = None,
           categories = None, category_scores = None\<rparr> \<and>
        moderation_calls (snd (fast_moderate_text rt api w t_get t_put t_clean t))
          = moderation_calls w)"
proof (intro impI conjI)
  assume a: "fst (check_custom_patterns_only rt t)"
  show "moderate_text rt api w t =
       (\<lparr>verdict_text = t, flagged = True, detection_method = None, openai_flagged = None,
         custom_flagged = None, custom_flags = fst (snd (check_custom_patterns_only rt t)),
         reason = None, api_call_made = None, categories = None, category_scores = None\<rparr>, w)"
    using a by (rule moderate_text_pattern_path)
  have "map snd (map group_flag gs) = map group_matched gs" for gs
    by (simp add: group_flag_def group_matched_def)
  then have "map snd (fst (snd (check_custom_patterns_only rt t)))
      = map group_matched (rule_groups rt (str_lower rt t))"
    by (simp only: pattern_flags)
  with a show "py_any (map snd (fst (snd (check_custom_patterns_only rt t))))"
    by (simp only: pattern_flagged_iff)
  assume b: "t \<noteq> [] \<and> str_strip t \<noteq> [] \<and> get_cached_moderation rt w t_get t = None"
  from b a have f: "fast_moderate_text rt api w t_get t_put t_clean t =
     (\<lparr>verdict_text = t, flagged = True, detection_method = None, openai_flagged = None,
       custom_flagged = Some True, custom_flags = fst (snd (check_custom_patterns_only rt t)),
       reason = Some (snd (snd (check_custom_patterns_only rt t))), api_call_made = None,
       categories = None, category_scores = None\<rparr>,
      cache_moderation rt w t_put t_clean t
        \<lparr>verdict_text = t, flagged = True, detection_method = None, openai_flagged = None,
         custom_flagged = Some True, custom_flags = fst (snd (check_custom_patterns_only rt t)),
         reason = Some (snd (snd (check_custom_patterns_only rt t))), api_call_made = None,
         categories = None, category_scores = None\<rparr>)"
    by (simp add: fast_moderate_text_pattern_path)
  show "fst (fast_moderate_text rt api w t_get t_put t_clean t) =
          \<lparr>verdict_text = t, flagged = True, detection_method = None, openai_flagged = None,
           custom_flagged = Some True,
           custom_flags = fst (snd (check_custom_patterns_only rt t)),
           reason = Some (snd (snd (check_custom_patterns_only rt t))), api_call_made = None,
           categories = None, category_scores = None\<rparr>"
    unfolding f by simp
  show "moderation_calls (snd (fast_moderate_text rt api w t_get t_put t_clean t))
          = moderation_calls w"
    unfolding f by (simp add: cache_moderation_calls)
qed

lemma example_not_blank: "str_strip ''you fucking idiot'' \<noteq> []"
  by (simp add: str_strip_def isspace_def)

lemma example_cache_miss: "get_cached_moderation rt empty_world now t = None"
  by (simp add: get_cached_moderation_def Let_def empty_world_def)

text \<open>
  Claim C1. For every text on which at least one rule group matches, the moderation
  decision returns a verdict with \<open>flagged = true\<close> that names the pattern match as the
  method used, and the classifier is not called. The code keeps the flag and the skipped
  classifier call, and \<open>moderate_text\<close> breaks the rest. On the text
  \<open>you fucking idiot\<close> the pattern matcher flags the first group and gives the reason
  \<open>Explicit sexual/inappropriate language detected\<close>. \<open>moderate_text\<close> leaves the world
  as it was and returns a verdict with the keys \<open>text\<close>, \<open>flagged\<close> and \<open>custom_flags\<close>
  only: no \<open>detection_method\<close>, no \<open>custom_flagged\<close>, and no \<open>reason\<close>, the reason of
  the pattern matcher being dropped. \<open>_fast_moderate_text\<close> on the same text returns
  \<open>custom_flagged = True\<close> and that reason, as the classifier path of \<open>moderate_text\<close>
  sets \<open>detection_method\<close>, \<open>custom_flagged\<close> and \<open>reason\<close>.
\<close>

theorem moderate_text_pattern_verdict_names_no_method:
  "check_custom_patterns_only example_runtime ''you fucking idiot'' =
     (True,
      [(''explicit_content'', True), (''suggestive_context'', False),
       (''body_shaming'', False), (''emotional_abuse'', False), (''racism_hate_speech'', False),
       (''transactional_dating'', False), (''sexism_misogyny_transphobia'', False)],
      ''Explicit sexual/inappropriate language detected'') \<and>
   moderate_text example_runtime failing_classifier empty_world ''you fucking idiot'' =
     (\<lparr>verdict_text = ''you fucking idiot'', flagged = True, detection_method = None,
       openai_flagged = None, custom_flagged = None,
       custom_flags =
         [(''explicit_content'', True), (''suggestive_context'', False),
          (''body_shaming'', False), (''emotional_abuse'', False),
          (''racism_hate_speech'', False), (''transactional_dating'', False),
          (''sexism_misogyny_transphobia'', False)],
       reason = None, api_call_made = None, categories = None, category_scores = None\<rparr>,
      empty_world) \<and>
   fst (fast_moderate_text example_runtime failing_classifier empty_world 0 0 0
          ''you fucking idiot'') =
     \<lparr>verdict_text = ''you fucking idiot'', flagged = True, detection_method = None,
      openai_flagged = None, custom_flagged = Some True,
      custom_flags =
        [(''explicit_content'', True), (''suggestive_context'', False),
         (''body_shaming'', False), (''emotional_abuse'', False),
         (''racism_hate_speech'', False), (''transactional_dating'', False),
         (''sexism_misogyny_transphobia'', False)],
      reason = Some ''Explicit sexual/inappropriate language detected'', api_call_made = None,
      categories = None, category_scores = None\<rparr>"
proof -
  have c: "check_custom_patterns_only example_runtime ''you fucking idiot'' =
     (True,
      [(''explicit_content'', True), (''suggestive_context'', False),
       (''body_shaming'', False), (''emotional_abuse'', False), (''racism_hate_speech'', False),
       (''transactional_dating'', False), (''sexism_misogyny_transphobia'', False)],
      ''Explicit sexual/inappropriate language detected'')"
    by (simp add: example_check)
  then have a: "fst (check_custom_patterns_only example_runtime ''you fucking idiot'')"
    by simp
  have m: "moderate_text example_runtime failing_classifier empty_world ''you fucking idiot'' =
     (\<lparr>verdict_text = ''you fucking idiot'', flagged = True, detection_method = None,
       openai_flagged = None, custom_flagged = None,
       custom_flags =
         [(''explicit_content'', True), (''suggestive_context'', False),
          (''body_shaming'', False), (''emotional_abuse'', False),
          (''racism_hate_speech'', False), (''transactional_dating'', False),
          (''sexism_misogyny_transphobia'', False)],
       reason = None, api_call_made = None, categories = None, category_scores = None\<rparr>,
      empty_world)"
    unfolding moderate_text_pattern_path [OF a] by (simp add: c)
  have nb: "''you fucking idiot'' \<noteq> []"
    by simp
  have f: "fst (fast_moderate_text example_runtime failing_classifier empty_world 0 0 0
          ''you fucking idiot'') =
     \<lparr>verdict_text = ''you fucking idiot'', flagged = True, detection_method = None,
      openai_flagged = None, custom_flagged = Some True,
      custom_flags =
        [(''explicit_content'', True), (''suggestive_context'', False),
         (''body_shaming'', False), (''emotional_abuse'', False),
         (''racism_hate_speech'', False), (''transactional_dating'', False),
         (''sexism_misogyny_transphobia'', False)],
      reason = Some ''Explicit sexual/inappropriate language detected'', api_call_made = None,
      categories = None, category_scores = None\<rparr>"
    unfolding fast_moderate_text_pattern_path [OF nb example_not_blank example_cache_miss a]
    by (simp add: c)
  from c m f show ?thesis by (simp only: simp_thms)
qed

section \<open>Blank text\<close>

lemma str_strip_blank: "str_strip t = [] \<longleftrightarrow> list_all isspace t"
proof
  assume "str_strip t = []"
  then have all: "\<forall>c \<in> set (dropWhile isspace t). isspace c"
    by (simp add: str_strip_def dropWhile_eq_Nil_conv)
  have "dropWhile isspace t = []"
  proof (rule ccontr)
    assume ne: "dropWhile isspace t \<noteq> []"
    then have "\<not> isspace (hd (dropWhile isspace t))"
      by (rule hd_dropWhile)
    moreover from ne have "hd (dropWhile isspace t) \<in> set (dropWhile isspace t)"
      by simp
    ultimately show False using all by blast
  qed
  then show "list_all isspace t"
    by (simp add: dropWhile_eq_Nil_conv list_all_iff)
next
  assume "list_all isspace t"
  then have "dropWhile isspace t = []"
    by (simp add: dropWhile_eq_Nil_conv list_all_iff)
  then have "str_strip t = rev (dropWhile isspace (rev []))"
    by (simp only: str_strip_def)
  then show "str_strip t = []"
    by simp
qed

text \<open>
  Claim C5, as the code has it. For an empty or whitespace-only text,
  \<open>_fast_moderate_text\<close> returns an unflagged verdict with the reason \<open>Empty text\<close>,
  \<open>custom_flagged = False\<close> and no custom flags, and leaves the world as it was: neither
  the cache, nor the pattern matcher, nor the classifier is used. The verdict carries
  the text it was given, so the verdicts of two blank texts agree in every field but
  \<open>text\<close>.
\<close>

theorem fast_moderate_text_blank:
  "(list_all isspace t \<longrightarrow>
      fast_moderate_text rt api w t_get t_put t_clean t =
        (\<lparr>verdict_text = t, flagged = False, detection_method = None, openai_flagged = None,
          custom_flagged = Some False, custom_flags = [], reason = Some ''Empty text'',
          api_call_made = None, categories = None, category_scores = None\<rparr>, w)) \<and>
   (list_all isspace t \<and> list_all isspace t' \<longrightarrow>
      (fst (fast_moderate_text rt api w t_get t_put t_clean t))\<lparr>verdict_text := x\<rparr>
        = (fst (fast_moderate_text rt api w t_get t_put t_clean t'))\<lparr>verdict_text := x\<rparr>)"
  by (simp add: fast_moderate_text_def str_strip_blank)

theorem fast_moderate_text_blank_witness:
  "list_all isspace ''   '' \<and> list_all isspace '''' \<and>
   fast_moderate_text example_runtime failing_classifier empty_world 0 0 0 ''   '' =
     (\<lparr>verdict_text = ''   '', flagged = False, detection_method = None, openai_flagged = None,
       custom_flagged = Some False, custom_flags = [], reason = Some ''Empty text'',
       api_call_made = None, categories = None, category_scores = None\<rparr>, empty_world) \<and>
   (fst (fast_moderate_text example_runtime failing_classifier empty_world 0 0 0 ''''))
       \<lparr>verdict_text := ''''\<rparr>
     = (fst (fast_moderate_text example_runtime failing_classifier empty_world 0 0 0 ''   ''))
       \<lparr>verdict_text := ''''\<rparr>"
proof -
  have a: "list_all isspace ''   ''" and b: "list_all isspace ''''"
    by (simp_all add: isspace_def)
  from fast_moderate_text_blank
    [of "''   ''" example_runtime failing_classifier empty_world 0 0 0 "''''" "''''"] a b
  have c: "fast_moderate_text example_runtime failing_classifier empty_world 0 0 0 ''   '' =
     (\<lparr>verdict_text = ''   '', flagged = False, detection_method = None, openai_flagged = None,
       custom_flagged = Some False, custom_flags = [], reason = Some ''Empty text'',
       api_call_made = None, categories = None, category_scores = None\<rparr>, empty_world)"
    by blast
  from fast_moderate_text_blank
    [of "''''" example_runtime failing_classifier empty_world 0 0 0 "''   ''" "''''"] a b
  have d: "(fst (fast_moderate_text example_runtime failing_classifier empty_world 0 0 0 ''''))
       \<lparr>verdict_text := ''''\<rparr>
     = (fst (fast_moderate_text example_runtime failing_classifier empty_world 0 0 0 ''   ''))
       \<lparr>verdict_text := ''''\<rparr>"
    by blast
  from a b c d show ?thesis by blast
qed

text \<open>
  The claim as it is written fails twice. The verdicts of \<open>_fast_moderate_text\<close> for the
  empty text and for three spaces differ, in the text they carry. And \<open>moderate_text\<close>
  has no guard for blank text: on the empty text it runs the pattern matcher and calls
  the classifier.
\<close>

theorem blank_text_counterexample:
  "fst (fast_moderate_text example_runtime failing_classifier empty_world 0 0 0 '''')
     \<noteq> fst (fast_moderate_text example_runtime failing_classifier empty_world 0 0 0 ''   '') \<and>
   moderation_calls (snd (moderate_text example_runtime failing_classifier empty_world '''')) = 1 \<and>
   reason (fst (moderate_text example_runtime failing_classifier empty_world ''''))
     = Some ''Content appears safe after full analysis''"
proof -
  have a: "\<not> fst (check_custom_patterns_only example_runtime '''')"
    by (simp add: example_pattern_flagged)
  have b: "failing_classifier '''' = Inl ''Connection error.''"
    by (simp add: failing_classifier_def)
  have c: "verdict_text (fst (fast_moderate_text example_runtime failing_classifier empty_world
      0 0 0 '''')) = ''''"
    by (simp add: fast_moderate_text_def)
  have d: "verdict_text (fst (fast_moderate_text example_runtime failing_classifier empty_world
      0 0 0 ''   '')) = ''   ''"
    by (simp add: fast_moderate_text_def str_strip_blank isspace_def)
  from c d have e: "fst (fast_moderate_text example_runtime failing_classifier empty_world
      0 0 0 '''')
     \<noteq> fst (fast_moderate_text example_runtime failing_classifier empty_world 0 0 0 ''   '')"
    by auto
  have f: "moderate_text example_runtime failing_classifier empty_world '''' =
       (\<lparr>verdict_text = '''', flagged = False, detection_method = Some ''clean'',
         openai_flagged = Some False, custom_flagged = Some False,
         custom_flags = fst (snd (check_custom_patterns_only example_runtime '''')),
         reason = Some ''Content appears safe after full analysis'',
         api_call_made = Some True, categories = Some [], category_scores = Some []\<rparr>,
        empty_world\<lparr>moderation_calls := moderation_calls empty_world + 1\<rparr>)"
    using moderate_text_classifier_path [OF a openai_context_analysis_failure
      [of failing_classifier "''''" "''Connection error.''", OF b], of empty_world]
    by simp
  from e show ?thesis
    unfolding f by (simp add: empty_world_def)
qed

section \<open>The retry loop\<close>

lemma retry_loop_step:
  "retry_loop stt m (attempt # rest) w =
     (if retryable_failure (stt (stt_attempts w)) \<and> attempt < m
      then retry_loop stt m rest
             (backoff (stt (stt_attempts w)) ((attempt + 1) * 2)
                (attempted (stt (stt_attempts w)) w))
      else (loop_result (stt (stt_attempts w)), attempted (stt (stt_attempts w)) w))"
  by (cases "outcome_result (stt (stt_attempts w))")
     (simp_all add: Let_def retryable_failure_def rate_limited_def loop_result_def
        attempted_def backoff_def)

lemma attempts_range: "[0..<max_retries + 1] = [0, 1, 2]"
  by (simp add: max_retries_def upt_rec)

lemma stt_attempts_attempted [simp]: "stt_attempts (attempted out w) = stt_attempts w + 1"
  by (simp add: attempted_def)

lemma stt_attempts_backoff [simp]: "stt_attempts (backoff out s w) = stt_attempts w"
  by (simp add: backoff_def)

lemma retry_loop_unrolled:
  "retry_loop stt max_retries [0..<max_retries + 1] w =
     (if \<not> retryable_failure (stt (stt_attempts w))
      then (loop_result (stt (stt_attempts w)), attempted (stt (stt_attempts w)) w)
      else if \<not> retryable_failure (stt (stt_attempts w + 1))
      then (loop_result (stt (stt_attempts w + 1)),
            attempted (stt (stt_attempts w + 1))
              (backoff (stt (stt_attempts w)) 2 (attempted (stt (stt_attempts w)) w)))
      else (loop_result (stt (stt_attempts w + 2)),
            attempted (stt (stt_attempts w + 2))
              (backoff (stt (stt_attempts w + 1)) 4
                (attempted (stt (stt_attempts w + 1))
                  (backoff (stt (stt_attempts w)) 2 (attempted (stt (stt_attempts w)) w))))))"
  unfolding attempts_range
  by (simp add: retry_loop_step max_retries_def del: retry_loop.simps(2))

lemma transcribe_audio_after_validation:
  "validate_audio_file rt fs (audio_file_path req) = None \<Longrightarrow>
   retry_loop stt max_retries [0..<max_retries + 1] w = (Inl e, w') \<Longrightarrow>
   transcribe_audio rt fs stt w req = (Inl (error_of req e), w')"
  by (simp add: transcribe_audio_def Let_def split: prod.splits)

lemma error_of_typed:
  "error_type (error_of req e)
     \<in> {''FileNotFoundError'', ''ValidationError'', ''OpenAIError'', ''UnexpectedError''}"
  by (cases e) (simp_all add: error_of_def)

lemma error_of_retryable:
  "is_rate_limit e \<or> is_timeout e \<Longrightarrow> error_type (error_of req e) = ''OpenAIError''"
  by (cases e) (simp_all add: error_of_def is_rate_limit_def is_timeout_def)

text \<open>
  Claim C9, as the code has it. The loop makes three attempts at most, two of them
  retries. A further attempt is made only after an attempt that failed with a rate limit
  or a timeout. After a rate limit the code sleeps \<open>2 * (attempt + 1)\<close> seconds before
  the retry, 2 seconds after the first attempt and 4 after the second; after a timeout it
  retries at once, without a sleep. Any other failure ends the loop at the attempt where
  it occurs. The exception that leaves the loop, also the rate limit or the timeout of
  the third attempt, is returned by \<open>transcribe_audio\<close> as a typed error; a rate limit
  and a timeout have the type \<open>OpenAIError\<close>.
\<close>

theorem retry_policy:
  "retry_loop stt max_retries [0..<max_retries + 1] w =
     (if \<not> retryable_failure (stt (stt_attempts w))
      then (loop_result (stt (stt_attempts w)), attempted (stt (stt_attempts w)) w)
      else if \<not> retryable_failure (stt (stt_attempts w + 1))
      then (loop_result (stt (stt_attempts w + 1)),
            attempted (stt (stt_attempts w + 1))
              (backoff (stt (stt_attempts w)) 2 (attempted (stt (stt_attempts w)) w)))
      else (loop_result (stt (stt_attempts w + 2)),
            attempted (stt (stt_attempts w + 2))
              (backoff (stt (stt_attempts w + 1)) 4
                (attempted (stt (stt_attempts w + 1))
                  (backoff (stt (stt_attempts w)) 2 (attempted (stt (stt_attempts w)) w)))))) \<and>
   stt_attempts (snd (retry_loop stt max_retries [0..<max_retries + 1] w))
     \<le> stt_attempts w + 3 \<and>
   (validate_audio_file rt fs (audio_file_path req) = None
      \<and> fst (retry_loop stt max_retries [0..<max_retries + 1] w) = Inl e \<longrightarrow>
        fst (transcribe_audio rt fs stt w req) = Inl (error_of req e) \<and>
        error_type (error_of req e)
          \<in> {''FileNotFoundError'', ''ValidationError'', ''OpenAIError'', ''UnexpectedError''} \<and>
        (is_rate_limit e \<or> is_timeout e \<longrightarrow> error_type (error_of req e) = ''OpenAIError''))"
proof (intro conjI impI)
  show "retry_loop stt max_retries [0..<max_retries + 1] w =
     (if \<not> retryable_failure (stt (stt_attempts w))
      then (loop_result (stt (stt_attempts w)), attempted (stt (stt_attempts w)) w)
      else if \<not> retryable_failure (stt (stt_attempts w + 1))
      then (loop_result (stt (stt_attempts w + 1)),
            attempted (stt (stt_attempts w + 1))
              (backoff (stt (stt_attempts w)) 2 (attempted (stt (stt_attempts w)) w)))
      else (loop_result (stt (stt_attempts w + 2)),
            attempted (stt (stt_attempts w + 2))
              (backoff (stt (stt_attempts w + 1)) 4
                (attempted (stt (stt_attempts w + 1))
                  (backoff (stt (stt_attempts w)) 2 (attempted (stt (stt_attempts w)) w))))))"
    by (rule retry_loop_unrolled)
  show "stt_attempts (snd (retry_loop stt max_retries [0..<max_retries + 1] w))
     \<le> stt_attempts w + 3"
    unfolding retry_loop_unrolled by simp
next
  assume h: "validate_audio_file rt fs (audio_file_path req) = None
      \<and> fst (retry_loop stt max_retries [0..<max_retries + 1] w) = Inl e"
  then have "retry_loop stt max_retries [0..<max_retries + 1] w
      = (Inl e, snd (retry_loop stt max_retries [0..<max_retries + 1] w))"
    by (metis prod.collapse)
  with h show "fst (transcribe_audio rt fs stt w req) = Inl (error_of req e)"
    by (simp add: transcribe_audio_after_validation)
  show "error_type (error_of req e)
          \<in> {''FileNotFoundError'', ''ValidationError'', ''OpenAIError'', ''UnexpectedError''}"
    by (rule error_of_typed)
  assume "is_rate_limit e \<or> is_timeout e"
  then show "error_type (error_of req e) = ''OpenAIError''"
    by (rule error_of_retryable)
qed

lemma example_valid:
  "validate_audio_file example_runtime example_files (audio_file_path example_request) = None"
  by (simp add: validate_audio_file_def example_files_def example_request_def Let_def
      example_runtime_def SUPPORTED_FORMATS_def MAX_FILE_SIZE_def)

theorem retry_policy_witness:
  "validate_audio_file example_runtime example_files (audio_file_path example_request) = None \<and>
   retry_loop rate_limited_provider max_retries [0..<max_retries + 1] empty_world =
     (Inl (RateLimitError ''Rate limit reached.''),
      empty_world\<lparr>stt_attempts := 3, stt_calls := 3, sleeps := [2, 4]\<rparr>) \<and>
   fst (transcribe_audio example_runtime example_files rate_limited_provider empty_world
          example_request)
     = Inl \<lparr>error_type = ''OpenAIError'', error_message = ''API error: Rate limit reached.'',
            error_file_path = ''a.wav''\<rparr>"
proof -
  let ?e = "RateLimitError ''Rate limit reached.''"
  note p = retry_policy [of rate_limited_provider empty_world example_runtime example_files
      example_request ?e]
  have r: "retryable_failure (rate_limited_provider n)"
    "rate_limited (rate_limited_provider n)"
    "loop_result (rate_limited_provider n) = Inl ?e"
    "reaches_provider (rate_limited_provider n)" for n
    by (simp_all add: rate_limited_provider_def retryable_failure_def rate_limited_def
        loop_result_def outcome_result_def is_rate_limit_def reaches_provider_def)
  from p have loop: "retry_loop rate_limited_provider max_retries [0..<max_retries + 1] empty_world =
     (Inl ?e, empty_world\<lparr>stt_attempts := 3, stt_calls := 3, sleeps := [2, 4]\<rparr>)"
    by (simp add: r attempted_def backoff_def empty_world_def)
  from p loop example_valid
  have "fst (transcribe_audio example_runtime example_files rate_limited_provider empty_world
          example_request) = Inl (error_of example_request ?e)"
    by simp
  then have "fst (transcribe_audio example_runtime example_files rate_limited_provider
          empty_world example_request)
     = Inl \<lparr>error_type = ''OpenAIError'', error_message = ''API error: Rate limit reached.'',
            error_file_path = ''a.wav''\<rparr>"
    by (simp add: error_of_def example_request_def)
  with loop example_valid show ?thesis by simp
qed

text \<open>
  The claim as it is written fails: when every attempt times out, the loop makes its
  three attempts and never sleeps between them.
\<close>

theorem timeout_retry_without_backoff_counterexample:
  "retry_loop timing_out_provider max_retries [0..<max_retries + 1] empty_world =
     (Inl (APITimeoutError ''Request timed out.''),
      empty_world\<lparr>stt_attempts := 3, stt_calls := 3, sleeps := []\<rparr>)"
proof -
  have r: "retryable_failure (timing_out_provider n)"
    "\<not> rate_limited (timing_out_provider n)"
    "loop_result (timing_out_provider n) = Inl (APITimeoutError ''Request timed out.'')"
    "reaches_provider (timing_out_provider n)" for n
    by (simp_all add: timing_out_provider_def retryable_failure_def rate_limited_def
        loop_result_def outcome_result_def is_rate_limit_def is_timeout_def
        reaches_provider_def)
  show ?thesis
    unfolding retry_loop_unrolled
    by (simp add: r attempted_def backoff_def empty_world_def)
qed

section \<open>The transcription cache\<close>

lemma dict_get_dict_set: "dict_get (dict_set k v d) k = Some v"
proof (cases "k \<in> set (map fst d)")
  case True
  then have "dict_get (map (\<lambda>(k', v'). if k' = k then (k, v) else (k', v')) d) k = Some v"
    unfolding dict_get_def by (induction d) auto
  with True show ?thesis by (simp add: dict_set_def)
next
  case False
  then have "map_of d k = None"
    by (simp add: map_of_eq_None_iff)
  with False show ?thesis by (simp add: dict_set_def dict_get_def map_add_def)
qed

lemma dict_set_value:
  assumes "(k, x) \<in> set (dict_set k v d)"
  shows "x = v"
proof (cases "k \<in> set (map fst d)")
  case True
  with assms show ?thesis
    by (auto simp: dict_set_def split: if_splits)
next
  case False
  then have "(k, x) \<notin> set d"
    by force
  with False assms show ?thesis
    by (simp add: dict_set_def)
qed

lemma dict_get_dict_pop:
  "dict_get (dict_pop k d) k' = (if k' = k then None else dict_get d k')"
  unfolding dict_get_def dict_pop_def by (induction d) auto

lemma dict_get_fold_pop:
  "dict_get (fold dict_pop ks d) k = (if k \<in> set ks then None else dict_get d k)"
  by (induction ks arbitrary: d) (simp_all add: dict_get_dict_pop)

lemma fold_ft_pop_key:
  "fold ft_pop_key ks w =
     w\<lparr>cache_timestamps := fold dict_pop ks (cache_timestamps w),
       transcription_cache := fold dict_pop ks (transcription_cache w)\<rparr>"
  by (induction ks arbitrary: w) (simp_all add: ft_pop_key_def)

lemma not_expired:
  assumes "\<forall>x. (k, x) \<in> set (cache_timestamps w) \<longrightarrow> now - x \<le> CACHE_MAX_AGE"
  shows "k \<notin> set (ft_expired_keys now w)"
  using assms by (auto simp: ft_expired_keys_def)

lemma ft_cache_transcription_stores:
  assumes "t_clean - t_put \<le> CACHE_MAX_AGE"
  shows "dict_get (transcription_cache (ft_cache_transcription rt fs w t_put t_clean path req d))
           (transcription_cache_key rt fs path req) = Some d \<and>
         dict_get (cache_timestamps (ft_cache_transcription rt fs w t_put t_clean path req d))
           (transcription_cache_key rt fs path req) = Some t_put \<and>
         stt_calls (ft_cache_transcription rt fs w t_put t_clean path req d) = stt_calls w"
proof -
  let ?k = "transcription_cache_key rt fs path req"
  let ?w2 = "w\<lparr>transcription_cache := dict_set ?k d (transcription_cache w),
               cache_timestamps := dict_set ?k t_put (cache_timestamps w)\<rparr>"
  have w2: "dict_get (transcription_cache ?w2) ?k = Some d"
    "dict_get (cache_timestamps ?w2) ?k = Some t_put" "stt_calls ?w2 = stt_calls w"
    by (simp_all add: dict_get_dict_set)
  have "\<forall>x. (?k, x) \<in> set (cache_timestamps ?w2) \<longrightarrow> t_clean - x \<le> CACHE_MAX_AGE"
    using assms by (auto dest: dict_set_value)
  then have ne: "?k \<notin> set (ft_expired_keys t_clean ?w2)"
    by (rule not_expired)
  have clean: "dict_get (transcription_cache (ft_cleanup_old_cache_entries t_clean ?w2)) ?k
        = Some d"
    "dict_get (cache_timestamps (ft_cleanup_old_cache_entries t_clean ?w2)) ?k = Some t_put"
    "stt_calls (ft_cleanup_old_cache_entries t_clean ?w2) = stt_calls w"
    using ne
    by (simp_all add: ft_cleanup_old_cache_entries_def Let_def fold_ft_pop_key dict_get_fold_pop
        dict_get_dict_set)
  have eq: "ft_cache_transcription rt fs w t_put t_clean path req d =
      (if length (transcription_cache ?w2) > MAX_CACHE_SIZE
       then ft_cleanup_old_cache_entries t_clean ?w2 else ?w2)"
    by (simp add: ft_cache_transcription_def cache_transcription_def ENABLE_CACHING_def Let_def)
  show ?thesis
  proof (cases "length (transcription_cache ?w2) > MAX_CACHE_SIZE")
    case True
    with eq have "ft_cache_transcription rt fs w t_put t_clean path req d
        = ft_cleanup_old_cache_entries t_clean ?w2"
      by (simp only: if_True)
    with clean show ?thesis by (simp only: simp_thms)
  next
    case False
    with eq have "ft_cache_transcription rt fs w t_put t_clean path req d = ?w2"
      by (simp only: if_False)
    with w2 show ?thesis by (simp only: simp_thms)
  qed
qed

lemma loop_result_reaches: "loop_result out = Inr x \<Longrightarrow> reaches_provider out"
  by (cases out) (simp_all add: loop_result_def outcome_result_def reaches_provider_def)

lemma stt_calls_attempted:
  "stt_calls (attempted out w) = stt_calls w + (if reaches_provider out then 1 else 0)"
  by (simp add: attempted_def)

lemma stt_calls_backoff: "stt_calls (backoff out s w) = stt_calls w"
  by (simp add: backoff_def)

lemma retry_loop_success_calls:
  assumes "retry_loop stt max_retries [0..<max_retries + 1] w = (Inr x, w')"
  shows "stt_calls w < stt_calls w' \<and> stt_calls w' \<le> stt_calls w + 3"
  using assms unfolding retry_loop_unrolled
  by (auto simp: stt_calls_attempted stt_calls_backoff dest: loop_result_reaches
      split: if_splits)

lemma transcribe_audio_success:
  assumes "transcribe_audio rt fs stt w req = (Inr r, w')"
  shows "success r \<and> stt_calls w < stt_calls w' \<and> stt_calls w' \<le> stt_calls w + 3"
proof -
  from assms obtain x where "retry_loop stt max_retries [0..<max_retries + 1] w = (Inr x, w')"
    and "success r"
    by (auto simp: transcribe_audio_def Let_def split: option.splits prod.splits sum.splits)
  then show ?thesis
    by (simp add: retry_loop_success_calls)
qed

lemma transcription_cache_key_cong:
  "get_file_info fs2 path = get_file_info fs path \<Longrightarrow> language req2 = language req \<Longrightarrow>
   response_format req2 = response_format req \<Longrightarrow> temperature req2 = temperature req \<Longrightarrow>
   transcription_cache_key rt fs2 path req2 = transcription_cache_key rt fs path req"
  by (simp add: transcription_cache_key_def params_str_def)

lemma response_of_dict_of_response: "success r \<Longrightarrow> response_of_dict (dict_of_response r) = r"
  by (simp add: response_of_dict_def dict_of_response_def)

lemma transcribe_hit:
  "get_cached_transcription rt fs w t_get (audio_file_path req) req = Some d \<Longrightarrow>
   transcribe rt fs stt w t_get t_put t_clean req = (Inr (response_of_dict d), w)"
  by (simp add: transcribe_def)

lemma transcribe_miss_failure:
  "get_cached_transcription rt fs w t_get (audio_file_path req) req = None \<Longrightarrow>
   transcribe_audio rt fs stt w req = (Inl e, w') \<Longrightarrow>
   transcribe rt fs stt w t_get t_put t_clean req = (Inl (stage_error req e), w')"
  by (simp add: transcribe_def)

lemma transcribe_miss_success:
  "get_cached_transcription rt fs w t_get (audio_file_path req) req = None \<Longrightarrow>
   transcribe_audio rt fs stt w req = (Inr tr, w') \<Longrightarrow> success tr \<Longrightarrow>
   transcribe rt fs stt w t_get t_put t_clean req =
     (Inr tr, ft_cache_transcription rt fs w' t_put t_clean (audio_file_path req) req
                (dict_of_response tr))"
  by (simp add: transcribe_def Let_def)

lemma transcribe_miss:
  assumes "get_cached_transcription rt fs w t_get (audio_file_path req) req = None"
    and "fst (transcribe rt fs stt w t_get t_put t_clean req) = Inr r"
  shows "\<exists>w'. transcribe_audio rt fs stt w req = (Inr r, w') \<and>
           snd (transcribe rt fs stt w t_get t_put t_clean req) =
             ft_cache_transcription rt fs w' t_put t_clean (audio_file_path req) req
               (dict_of_response r)"
proof (cases "transcribe_audio rt fs stt w req")
  case (Pair res w')
  show ?thesis
  proof (cases res)
    case (Inl e)
    with Pair have "transcribe_audio rt fs stt w req = (Inl e, w')" by simp
    from transcribe_miss_failure [OF assms(1) this, of t_put t_clean] assms(2)
    show ?thesis by simp
  next
    case (Inr tr)
    with Pair have ta: "transcribe_audio rt fs stt w req = (Inr tr, w')" by simp
    from transcribe_audio_success [OF ta] have s: "success tr" by simp
    from transcribe_miss_success [OF assms(1) ta s, of t_put t_clean] assms(2)
    have "r = tr" by simp
    with transcribe_miss_success [OF assms(1) ta s, of t_put t_clean] ta
    show ?thesis by simp
  qed
qed

text \<open>
  Claim C8, as the code has it. Let a first call of \<open>transcribe\<close> find no valid entry in
  the cache and succeed. Then it has called the speech-to-text provider once for each
  attempt it made, at least once and at most three times, and has stored its result.
  A second call for the same path, with the same size and modification time of the file
  and the same language, response format and temperature, whose lookup comes less than
  \<open>CACHE_MAX_AGE\<close> seconds after the result was stored, returns a response equal to the
  first and leaves the world as it was: it makes no call of the provider. (The cleanup of
  the first call is taken to read the clock at most \<open>CACHE_MAX_AGE\<close> seconds after the
  timestamp was written.)
\<close>

theorem transcribe_twice_from_cache:
  "get_cached_transcription rt fs w t_get (audio_file_path req) req = None
   \<and> fst (transcribe rt fs stt w t_get t_put t_clean req) = Inr r
   \<and> get_file_info fs2 (audio_file_path req) = get_file_info fs (audio_file_path req)
   \<and> audio_file_path req2 = audio_file_path req \<and> language req2 = language req
   \<and> response_format req2 = response_format req \<and> temperature req2 = temperature req
   \<and> t_clean - t_put \<le> CACHE_MAX_AGE \<and> t_get2 - t_put < CACHE_MAX_AGE
   \<longrightarrow>
     transcribe rt fs2 stt2 (snd (transcribe rt fs stt w t_get t_put t_clean req))
         t_get2 t_put2 t_clean2 req2
       = (Inr r, snd (transcribe rt fs stt w t_get t_put t_clean req)) \<and>
     stt_calls w < stt_calls (snd (transcribe rt fs stt w t_get t_put t_clean req)) \<and>
     stt_calls (snd (transcribe rt fs stt w t_get t_put t_clean req)) \<le> stt_calls w + 3"
proof (intro impI, elim conjE)
  let ?w1 = "snd (transcribe rt fs stt w t_get t_put t_clean req)"
  let ?path = "audio_file_path req"
  assume miss: "get_cached_transcription rt fs w t_get ?path req = None"
    and ok: "fst (transcribe rt fs stt w t_get t_put t_clean req) = Inr r"
    and info: "get_file_info fs2 ?path = get_file_info fs ?path"
    and same: "audio_file_path req2 = ?path" "language req2 = language req"
      "response_format req2 = response_format req" "temperature req2 = temperature req"
    and clean: "t_clean - t_put \<le> CACHE_MAX_AGE"
    and fresh: "t_get2 - t_put < CACHE_MAX_AGE"
  from transcribe_miss [OF miss ok] obtain w' where
    ta: "transcribe_audio rt fs stt w req = (Inr r, w')" and
    w1: "?w1 = ft_cache_transcription rt fs w' t_put t_clean ?path req (dict_of_response r)"
    by (elim exE conjE)
  from transcribe_audio_success [OF ta] have
    s: "success r" and calls: "stt_calls w < stt_calls w'" "stt_calls w' \<le> stt_calls w + 3"
    by simp_all
  note st = ft_cache_transcription_stores [OF clean, of rt fs w' ?path req "dict_of_response r"]
  have key: "transcription_cache_key rt fs2 (audio_file_path req2) req2
      = transcription_cache_key rt fs ?path req"
    unfolding same(1) by (rule transcription_cache_key_cong [OF info same(2-4)])
  from st have st1:
    "dict_get (cache_timestamps ?w1) (transcription_cache_key rt fs2 (audio_file_path req2) req2)
       = Some t_put"
    "dict_get (transcription_cache ?w1)
       (transcription_cache_key rt fs2 (audio_file_path req2) req2) = Some (dict_of_response r)"
    "stt_calls ?w1 = stt_calls w'"
    unfolding key w1 by simp_all
  from get_cached_transcription_entry [OF st1(1) st1(2), of t_get2] fresh
  have "get_cached_transcription rt fs2 ?w1 t_get2 (audio_file_path req2) req2
      = Some (dict_of_response r)"
    by simp
  from transcribe_hit [OF this, of stt2 t_put2 t_clean2]
  have "transcribe rt fs2 stt2 ?w1 t_get2 t_put2 t_clean2 req2 = (Inr r, ?w1)"
    by (simp only: response_of_dict_of_response [OF s])
  moreover from st1(3) calls have "stt_calls w < stt_calls ?w1" "stt_calls ?w1 \<le> stt_calls w + 3"
    by simp_all
  ultimately show "transcribe rt fs2 stt2 ?w1 t_get2 t_put2 t_clean2 req2 = (Inr r, ?w1) \<and>
     stt_calls w < stt_calls ?w1 \<and> stt_calls ?w1 \<le> stt_calls w + 3"
    by simp
qed

subsection \<open>Runs on the example inputs\<close>

lemma example_key:
  "transcription_cache_key example_runtime example_files ''a.wav'' req
     = ''transcription:a.wav:1024:1700000000.0:''
        @ (case language req of None \<Rightarrow> ''None'' | Some l \<Rightarrow> l) @ '':'' @ response_format req
        @ '':'' @ (case temperature req of PyInt i \<Rightarrow> if i = 0 then ''0'' else ''1024''
                    | PyFloat x \<Rightarrow> ''1700000000.0'')"
  by (simp add: transcription_cache_key_def get_file_info_def example_files_def
      get_file_hash_def example_runtime_def params_str_def)

lemma example_lookup_miss:
  "transcription_cache w = [] \<Longrightarrow> get_cached_transcription rt fs w now path req = None"
  by (simp add: get_cached_transcription_def Let_def)

lemma transcribe_audio_returns:
  "validate_audio_file rt fs (audio_file_path req) = None \<Longrightarrow>
   retry_loop stt max_retries [0..<max_retries + 1] w = (Inr x, w') \<Longrightarrow>
   response_format req = ''text'' \<Longrightarrow>
   transcribe_audio rt fs stt w req =
     (Inr \<lparr>success = True, transcript = fst (text_language_confidence x),
            file_path = audio_file_path req,
            language_detected = fst (snd (text_language_confidence x)),
            duration = Some (snd (preprocess_audio rt (audio_file_path req))),
            response_format_out = ''text''\<rparr>, w')"
  by (simp add: transcribe_audio_def Let_def extract_results_def split: prod.splits)

lemma example_transcribe_audio_works:
  "stt n = CreateReturns (example_transcript ''hello'') \<Longrightarrow>
   transcribe_audio example_runtime example_files stt (after_calls n) example_request
     = (Inr example_response, after_calls (n + 1))"
proof -
  assume o: "stt n = CreateReturns (example_transcript ''hello'')"
  have n: "stt_attempts (after_calls n) = n"
    by (simp add: after_calls_def)
  have "\<not> retryable_failure (stt n)" "reaches_provider (stt n)"
    "loop_result (stt n) = Inr (Some (example_transcript ''hello''))"
    by (simp_all add: o retryable_failure_def loop_result_def outcome_result_def
        reaches_provider_def)
  then have loop: "retry_loop stt max_retries [0..<max_retries + 1] (after_calls n)
      = (Inr (Some (example_transcript ''hello'')), after_calls (n + 1))"
    unfolding retry_loop_unrolled n
    by (simp add: attempted_def after_calls_def)
  have t: "text_language_confidence (Some (example_transcript ''hello''))
      = (''hello'', Some ''english'', calculate_confidence_score (example_transcript ''hello''))"
    by (simp add: text_language_confidence_def example_transcript_def)
  have f: "response_format example_request = ''text''" "audio_file_path example_request = ''a.wav''"
    by (simp_all add: example_request_def)
  have p: "preprocess_audio example_runtime ''a.wav'' = (''a.wav'', 5)"
    by (simp add: example_runtime_def)
  show ?thesis
    unfolding transcribe_audio_returns [OF example_valid loop f(1)]
    by (simp add: t f p example_response_def)
qed

lemma example_transcribe_audio_fails:
  "stt n = CreateRaises (OtherOpenAIError m) \<Longrightarrow>
   transcribe_audio example_runtime example_files stt (after_calls n) example_request
     = (Inl (error_of example_request (OtherOpenAIError m)), after_calls (n + 1))"
proof -
  assume o: "stt n = CreateRaises (OtherOpenAIError m)"
  have n: "stt_attempts (after_calls n) = n"
    by (simp add: after_calls_def)
  have "\<not> retryable_failure (stt n)" "reaches_provider (stt n)"
    "loop_result (stt n) = Inl (OtherOpenAIError m)"
    by (simp_all add: o retryable_failure_def loop_result_def outcome_result_def
        reaches_provider_def is_rate_limit_def is_timeout_def)
  then have loop: "retry_loop stt max_retries [0..<max_retries + 1] (after_calls n)
      = (Inl (OtherOpenAIError m), after_calls (n + 1))"
    unfolding retry_loop_unrolled n
    by (simp add: attempted_def after_calls_def)
  show ?thesis
    by (rule transcribe_audio_after_validation [OF example_valid loop])
qed

lemma after_calls_cache: "transcription_cache (after_calls n) = []"
  by (simp add: after_calls_def empty_world_def)

theorem transcribe_twice_from_cache_witness:
  "fst (transcribe example_runtime example_files working_provider empty_world 1000 1001 1001
          example_request) = Inr example_response \<and>
   transcribe example_runtime example_files failing_provider
      (snd (transcribe example_runtime example_files working_provider empty_world 1000 1001 1001
              example_request))
      2000 2001 2001 (example_request\<lparr>prompt := Some ''Casual talk.''\<rparr>)
     = (Inr example_response,
        snd (transcribe example_runtime example_files working_provider empty_world 1000 1001 1001
               example_request)) \<and>
   stt_calls (snd (transcribe example_runtime example_files working_provider empty_world
                     1000 1001 1001 example_request)) = 1"
proof -
  let ?first = "transcribe example_runtime example_files working_provider empty_world
      1000 1001 1001 example_request"
  have e: "after_calls 0 = empty_world"
    by (simp add: after_calls_def empty_world_def)
  have miss: "get_cached_transcription example_runtime example_files empty_world 1000
      (audio_file_path example_request) example_request = None"
    by (rule example_lookup_miss) (simp add: empty_world_def)
  have ta: "transcribe_audio example_runtime example_files working_provider empty_world
      example_request = (Inr example_response, after_calls 1)"
    using example_transcribe_audio_works [of working_provider 0]
    by (simp add: working_provider_def e)
  have s: "success example_response"
    by (simp add: example_response_def)
  note first = transcribe_miss_success [OF miss ta s]
  have ok: "fst ?first = Inr example_response"
    by (simp add: first)
  have ttl: "(1001::rat) - 1001 \<le> CACHE_MAX_AGE \<and> (2000::rat) - 1001 < CACHE_MAX_AGE"
    by (simp add: CACHE_MAX_AGE_def)
  have same: "get_file_info example_files (audio_file_path example_request)
      = get_file_info example_files (audio_file_path example_request)
    \<and> audio_file_path (example_request\<lparr>prompt := Some ''Casual talk.''\<rparr>)
      = audio_file_path example_request
    \<and> language (example_request\<lparr>prompt := Some ''Casual talk.''\<rparr>) = language example_request
    \<and> response_format (example_request\<lparr>prompt := Some ''Casual talk.''\<rparr>)
      = response_format example_request
    \<and> temperature (example_request\<lparr>prompt := Some ''Casual talk.''\<rparr>)
      = temperature example_request"
    by simp
  from transcribe_twice_from_cache [of example_runtime example_files empty_world 1000
      example_request working_provider 1001 1001 example_response example_files
      "example_request\<lparr>prompt := Some ''Casual talk.''\<rparr>" 2000 failing_provider 2001 2001]
    miss ok ttl same
  have second: "transcribe example_runtime example_files failing_provider (snd ?first)
      2000 2001 2001 (example_request\<lparr>prompt := Some ''Casual talk.''\<rparr>)
     = (Inr example_response, snd ?first)"
    by blast
  have calls: "stt_calls (snd ?first) = 1"
    using ft_cache_transcription_stores [of 1001 1001 example_runtime example_files
      "after_calls 1" "audio_file_path example_request" example_request
      "dict_of_response example_response"]
    by (simp add: first CACHE_MAX_AGE_def after_calls_def)
  from ok second calls show ?thesis by simp
qed

text \<open>
  The claim as it is written fails. When the provider answers with an error that is not
  retried, the first call stores nothing and the second call asks the provider again: two
  calls of the provider. And when the provider answers the first attempt with a rate
  limit and the second with a transcript, the first call of \<open>transcribe\<close> alone makes two
  calls of the provider.
\<close>

theorem transcribe_twice_counterexample:
  "stt_calls (snd (transcribe example_runtime example_files failing_provider
      (snd (transcribe example_runtime example_files failing_provider empty_world
              1000 1001 1001 example_request))
      2000 2001 2001 example_request)) = 2 \<and>
   fst (transcribe example_runtime example_files flaky_provider empty_world 1000 1001 1001
          example_request) = Inr example_response \<and>
   stt_calls (snd (transcribe example_runtime example_files flaky_provider empty_world
                     1000 1001 1001 example_request)) = 2"
proof -
  have e: "after_calls 0 = empty_world"
    by (simp add: after_calls_def empty_world_def)
  have miss: "get_cached_transcription example_runtime example_files (after_calls n) t
      (audio_file_path example_request) example_request = None" for n t
    by (rule example_lookup_miss) (rule after_calls_cache)
  have f: "failing_provider n = CreateRaises (OtherOpenAIError ''Internal server error.'')" for n
    by (simp add: failing_provider_def)
  have one: "transcribe example_runtime example_files failing_provider empty_world
      1000 1001 1001 example_request
     = (Inl (stage_error example_request
          (error_of example_request (OtherOpenAIError ''Internal server error.''))),
        after_calls 1)"
    using transcribe_miss_failure
      [OF miss example_transcribe_audio_fails [of failing_provider 0, OF f]]
    by (simp add: e)
  have two: "transcribe example_runtime example_files failing_provider (after_calls 1)
      2000 2001 2001 example_request
     = (Inl (stage_error example_request
          (error_of example_request (OtherOpenAIError ''Internal server error.''))),
        after_calls 2)"
    using transcribe_miss_failure
      [OF miss example_transcribe_audio_fails [of failing_provider 1, OF f]]
    by (simp add: numeral_2_eq_2)
  have a: "stt_calls (snd (transcribe example_runtime example_files failing_provider
      (snd (transcribe example_runtime example_files failing_provider empty_world
              1000 1001 1001 example_request))
      2000 2001 2001 example_request)) = 2"
    unfolding one snd_conv two by (simp add: after_calls_def)
  have r: "retryable_failure (flaky_provider 0)" "rate_limited (flaky_provider 0)"
    "reaches_provider (flaky_provider 0)" "\<not> retryable_failure (flaky_provider (Suc 0))"
    "reaches_provider (flaky_provider (Suc 0))"
    "loop_result (flaky_provider (Suc 0)) = Inr (Some (example_transcript ''hello''))"
    by (simp_all add: flaky_provider_def retryable_failure_def rate_limited_def
        loop_result_def outcome_result_def is_rate_limit_def reaches_provider_def)
  have w0: "stt_attempts empty_world = 0"
    by (simp add: empty_world_def)
  have loop: "retry_loop flaky_provider max_retries [0..<max_retries + 1] empty_world
      = (Inr (Some (example_transcript ''hello'')),
         empty_world\<lparr>stt_attempts := 2, stt_calls := 2, sleeps := [2]\<rparr>)"
    unfolding retry_loop_unrolled w0
    by (simp add: r attempted_def backoff_def empty_world_def)
  have t: "text_language_confidence (Some (example_transcript ''hello''))
      = (''hello'', Some ''english'', calculate_confidence_score (example_transcript ''hello''))"
    by (simp add: text_language_confidence_def example_transcript_def)
  have fmt: "response_format example_request = ''text''"
    by (simp add: example_request_def)
  have ta: "transcribe_audio example_runtime example_files flaky_provider empty_world
      example_request
     = (Inr example_response, empty_world\<lparr>stt_attempts := 2, stt_calls := 2, sleeps := [2]\<rparr>)"
    unfolding transcribe_audio_returns [OF example_valid loop fmt]
    by (simp add: t example_request_def example_runtime_def example_response_def)
  have s: "success example_response"
    by (simp add: example_response_def)
  note flaky = transcribe_miss_success [OF miss [of 0 1000, unfolded e] ta s]
  have b: "fst (transcribe example_runtime example_files flaky_provider empty_world
      1000 1001 1001 example_request) = Inr example_response"
    by (simp add: flaky)
  have c: "stt_calls (snd (transcribe example_runtime example_files flaky_provider empty_world
      1000 1001 1001 example_request)) = 2"
    using ft_cache_transcription_stores [of 1001 1001 example_runtime example_files
      "empty_world\<lparr>stt_attempts := 2, stt_calls := 2, sleeps := [2]\<rparr>"
      "audio_file_path example_request" example_request "dict_of_response example_response"]
    by (simp add: flaky CACHE_MAX_AGE_def)
  from a b c show ?thesis by simp
qed

section \<open>The moderated response\<close>

lemma moderated_is_safe: "is_safe (moderated r v) = (\<not> moderation_flagged (moderated r v))"
  by (simp add: moderated_def Let_def)

text \<open>
  Claim C10. Every successful response of \<open>transcribe_and_moderate\<close> has
  \<open>is_safe = not moderation_flagged\<close>.
\<close>

theorem transcribe_and_moderate_is_safe:
  "fst (transcribe_and_moderate rt fs stt api w t_get t_put t_clean m_get m_put m_clean req)
     = Inr resp \<longrightarrow> is_safe resp = (\<not> moderation_flagged resp)"
proof
  assume r: "fst (transcribe_and_moderate rt fs stt api w t_get t_put t_clean m_get m_put
      m_clean req) = Inr resp"
  show "is_safe resp = (\<not> moderation_flagged resp)"
  proof (cases "get_cached_transcription rt fs w t_get (audio_file_path req) req")
    case (Some d)
    with r have "\<exists>v. resp = moderated (response_of_dict d) v"
      by (auto simp: transcribe_and_moderate_def split: prod.splits)
    then show ?thesis by (auto simp: moderated_is_safe)
  next
    case None
    with r have "\<exists>tr v. resp = moderated tr v"
      by (auto simp: transcribe_and_moderate_def Let_def split: prod.splits sum.splits)
    then show ?thesis by (auto simp: moderated_is_safe)
  qed
qed

lemma transcribe_and_moderate_miss:
  "get_cached_transcription rt fs w t_get (audio_file_path req) req = None \<Longrightarrow>
   transcribe_audio rt fs stt w req = (Inr tr, w') \<Longrightarrow>
   fst (transcribe_and_moderate rt fs stt api w t_get t_put t_clean m_get m_put m_clean req) =
     Inr (moderated tr (fst (fast_moderate_text rt api
            (twm_cache_transcription rt fs w' t_put t_clean (audio_file_path req) req
               (dict_of_response tr))
            m_get m_put m_clean (transcript tr))))"
  by (simp add: transcribe_and_moderate_def Let_def split: prod.splits)

lemma fast_moderate_text_full_path:
  "t \<noteq> [] \<Longrightarrow> str_strip t \<noteq> [] \<Longrightarrow> get_cached_moderation rt w t_get t = None \<Longrightarrow>
   \<not> fst (check_custom_patterns_only rt t) \<Longrightarrow>
   fst (fast_moderate_text rt api w t_get t_put t_clean t) = fst (moderate_text rt api w t)"
  by (cases "check_custom_patterns_only rt t")
     (simp add: fast_moderate_text_def Let_def split: prod.splits)

lemma moderation_lookup_miss:
  "moderation_cache w = [] \<Longrightarrow> get_cached_moderation rt w now t = None"
  by (simp add: get_cached_moderation_def Let_def)

theorem transcribe_and_moderate_is_safe_witness:
  "fst (transcribe_and_moderate example_runtime example_files working_provider failing_classifier
          empty_world 1000 1001 1001 1002 1003 1003 example_request) = Inr example_moderated \<and>
   is_safe example_moderated \<and> \<not> moderation_flagged example_moderated"
proof -
  let ?w = "twm_cache_transcription example_runtime example_files (after_calls 1) 1001 1001
      (audio_file_path example_request) example_request (dict_of_response example_response)"
  have e: "after_calls 0 = empty_world"
    by (simp add: after_calls_def empty_world_def)
  have miss: "get_cached_transcription example_runtime example_files empty_world 1000
      (audio_file_path example_request) example_request = None"
    by (rule example_lookup_miss) (simp add: empty_world_def)
  have ta: "transcribe_audio example_runtime example_files working_provider empty_world
      example_request = (Inr example_response, after_calls 1)"
    using example_transcribe_audio_works [of working_provider 0]
    by (simp add: working_provider_def e)
  have mc: "moderation_cache ?w = []"
    by (simp add: twm_cache_transcription_def cache_transcription_def Let_def dict_set_def
        after_calls_def empty_world_def MAX_CACHE_SIZE_def ENABLE_CACHING_def)
  have nb: "''hello'' \<noteq> []" "str_strip ''hello'' \<noteq> []"
    by (simp_all add: str_strip_blank isspace_def)
  have np: "\<not> fst (check_custom_patterns_only example_runtime ''hello'')"
    by (simp add: example_pattern_flagged)
  have fc: "failing_classifier ''hello'' = Inl ''Connection error.''"
    by (simp add: failing_classifier_def)
  have v: "fst (fast_moderate_text example_runtime failing_classifier ?w 1002 1003 1003 ''hello'')
      = fst (moderate_text example_runtime failing_classifier ?w ''hello'')"
    by (rule fast_moderate_text_full_path [OF nb moderation_lookup_miss [OF mc] np])
  have tr: "transcript example_response = ''hello''"
    by (simp add: example_response_def)
  have run: "fst (transcribe_and_moderate example_runtime example_files working_provider
      failing_classifier empty_world 1000 1001 1001 1002 1003 1003 example_request)
     = Inr example_moderated"
    unfolding transcribe_and_moderate_miss [OF miss ta] tr v
      moderate_text_classifier_path [OF np openai_context_analysis_failure
        [of failing_classifier "''hello''" "''Connection error.''", OF fc]]
    by (simp add: moderated_def example_response_def example_moderated_def)
  from transcribe_and_moderate_is_safe [of example_runtime example_files working_provider
      failing_classifier empty_world 1000 1001 1001 1002 1003 1003 example_request
      example_moderated] run
  have "is_safe example_moderated = (\<not> moderation_flagged example_moderated)"
    by blast
  moreover have "\<not> moderation_flagged example_moderated"
    by (simp add: example_moderated_def)
  ultimately show ?thesis using run by blast
qed

end
